theory Spec2Isabelle
  imports Main "HOL-Library.AList" "HOL-Library.Multiset"
begin

section \<open>Python values\<close>

text \<open>
  The documents the scraper reads are what \<^verbatim>\<open>requests\<close>' \<^verbatim>\<open>r.json()\<close> returns: \<^verbatim>\<open>None\<close>,
  booleans, integers, floats, strings, lists and dicts with string keys. A dict is an
  association list in insertion order; a dict built by Python has pairwise distinct keys,
  and the theorems that depend on that say so. A string is the list of its characters, a
  character outside ASCII being written as its UTF-8 bytes. A float is carried as the
  text that \<^verbatim>\<open>repr\<close> gives it (which is one-to-one on floats, and is what \<^verbatim>\<open>str\<close>
  returns).
\<close>

datatype json =
    JNull
  | JBool bool
  | JInt int
  | JFloat string
  | JStr string
  | JArr "json list"
  | JObj "(string \<times> json) list"

text \<open>Exceptions, each with the text that \<^verbatim>\<open>str(e)\<close> gives.\<close>

datatype exn =
    HTTPError string
  | RequestError string
  | JSONDecodeError string
  | AttributeError string
  | TypeError string
  | KeyError string
  | RuntimeError string

fun exn_msg :: "exn \<Rightarrow> string" where
  "exn_msg (HTTPError m) = m"
| "exn_msg (RequestError m) = m"
| "exn_msg (JSONDecodeError m) = m"
| "exn_msg (AttributeError m) = m"
| "exn_msg (TypeError m) = m"
| "exn_msg (KeyError m) = m"
| "exn_msg (RuntimeError m) = m"

fun type_name :: "json \<Rightarrow> string" where
  "type_name JNull = ''NoneType''"
| "type_name (JBool _) = ''bool''"
| "type_name (JInt _) = ''int''"
| "type_name (JFloat _) = ''float''"
| "type_name (JStr _) = ''str''"
| "type_name (JArr _) = ''list''"
| "type_name (JObj _) = ''dict''"

definition no_attribute :: "json \<Rightarrow> string \<Rightarrow> exn" where
  "no_attribute j a =
     AttributeError ([CHR 0x27] @ type_name j @ [CHR 0x27] @ '' object has no attribute ''
       @ [CHR 0x27] @ a @ [CHR 0x27])"

text \<open>\<^verbatim>\<open>d.get(k, default)\<close> on a dict.\<close>

definition dict_get :: "(string \<times> json) list \<Rightarrow> string \<Rightarrow> json \<Rightarrow> json" where
  "dict_get d k dflt = (case map_of d k of Some v \<Rightarrow> v | None \<Rightarrow> dflt)"

text \<open>\<^verbatim>\<open>x.get(k, default)\<close> on any value: only a dict has \<^verbatim>\<open>get\<close>.\<close>

fun py_get :: "json \<Rightarrow> string \<Rightarrow> json \<Rightarrow> exn + json" where
  "py_get (JObj d) k dflt = Inr (dict_get d k dflt)"
| "py_get j k dflt = Inl (no_attribute j ''get'')"

text \<open>\<^verbatim>\<open>x.items()\<close>: only a dict has \<^verbatim>\<open>items\<close>.\<close>

fun py_items :: "json \<Rightarrow> exn + (string \<times> json) list" where
  "py_items (JObj d) = Inr d"
| "py_items j = Inl (no_attribute j ''items'')"

text \<open>Looking up the method \<^verbatim>\<open>x.get\<close>, before its arguments are evaluated.\<close>

fun get_method :: "json \<Rightarrow> exn + (string \<times> json) list" where
  "get_method (JObj d) = Inr d"
| "get_method j = Inl (no_attribute j ''get'')"

text \<open>
  \<^verbatim>\<open>for x in v\<close>: a list gives its elements, a dict its keys, a string its characters
  (each a string; none is a dict, which is all the scraper looks at); nothing else
  is iterable.
\<close>

fun py_iter :: "json \<Rightarrow> exn + json list" where
  "py_iter (JArr xs) = Inr xs"
| "py_iter (JObj d) = Inr (map (\<lambda>kv. JStr (fst kv)) d)"
| "py_iter (JStr s) = Inr (map (\<lambda>c. JStr [c]) s)"
| "py_iter j =
     Inl (TypeError ([CHR 0x27] @ type_name j @ [CHR 0x27] @ '' object is not iterable''))"

text \<open>Sequencing of steps that may raise: the first exception ends the computation.\<close>

definition and_then :: "exn + 'a \<Rightarrow> ('a \<Rightarrow> exn + 'b) \<Rightarrow> exn + 'b" where
  "and_then m f = (case m of Inl e \<Rightarrow> Inl e | Inr x \<Rightarrow> f x)"

section \<open>The office map\<close>

text \<open>
  \<^verbatim>\<open>build_office_map\<close>: the inner loop over \<^verbatim>\<open>item.items()\<close>, the outer loop over the
  list (an element that is not a dict is skipped), and the function. The keys of a
  JSON dict are strings, so \<^verbatim>\<open>str(k)\<close> is \<^verbatim>\<open>k\<close>. \<^verbatim>\<open>out[k] = v\<close> keeps the place of a key
  that is already there and appends a new one, as \<open>AList.update\<close> does.
\<close>

fun office_items :: "(string \<times> json) list \<Rightarrow> (string \<times> json) list \<Rightarrow> exn + (string \<times> json) list" where
  "office_items out [] = Inr out"
| "office_items out ((k, v) # kvs) =
     and_then (py_get v ''NM'' (JStr '''')) (\<lambda>nm. office_items (AList.update k nm out) kvs)"

fun office_loop :: "(string \<times> json) list \<Rightarrow> json list \<Rightarrow> exn + (string \<times> json) list" where
  "office_loop out [] = Inr out"
| "office_loop out (JObj d # items) =
     and_then (office_items out d) (\<lambda>out'. office_loop out' items)"
| "office_loop out (_ # items) = office_loop out items"

definition build_office_map :: "json \<Rightarrow> exn + (string \<times> json) list" where
  "build_office_map lst = and_then (py_iter lst) (office_loop [])"

section \<open>Strings and numbers\<close>

text \<open>\<^verbatim>\<open>str(n)\<close> of an integer.\<close>

fun str_nat :: "nat \<Rightarrow> string" where
  "str_nat n =
     (if n < 10 then [''0123456789'' ! n]
      else str_nat (n div 10) @ [''0123456789'' ! (n mod 10)])"

declare str_nat.simps [simp del]

definition str_int :: "int \<Rightarrow> string" where
  "str_int i = (if i < 0 then ''-'' @ str_nat (nat (- i)) else str_nat (nat i))"

text \<open>
  \<^verbatim>\<open>s.replace(old, new)\<close>: the occurrences of \<^verbatim>\<open>old\<close> are found from the left and do not
  overlap; with an empty \<^verbatim>\<open>old\<close>, \<^verbatim>\<open>new\<close> goes before every character and at the end.
  (\<^verbatim>\<open>Series.str.replace\<close> does this to every string of a column; neither pattern of the
  scraper has a character that a regular expression reads specially.)
\<close>

function py_replace :: "string \<Rightarrow> string \<Rightarrow> string \<Rightarrow> string" where
  "py_replace old new [] = (if old = [] then new else [])"
| "py_replace old new (c # cs) =
     (if old = [] then new @ concat (map (\<lambda>x. x # new) (c # cs))
      else if take (length old) (c # cs) = old
        then new @ py_replace old new (drop (length old) (c # cs))
      else c # py_replace old new cs)"
  by pat_completeness auto
termination
  by (relation "measure (\<lambda>(old, new, s). length s)") auto

text \<open>
  The texts that \<^verbatim>\<open>pandas.to_numeric\<close> reads as an integer literal here: one to sixteen
  decimal digits and nothing else, so a number below \<open>10 ^ 16\<close>. A text with a sign, a
  blank, a point, an exponent or more digits is left to the parser of pandas, which is
  not modelled (\<open>is_number\<close> below).
\<close>

definition is_digit :: "char \<Rightarrow> bool" where
  "is_digit c = (c \<in> set ''0123456789'')"

definition digit_value :: "char \<Rightarrow> int" where
  "digit_value c = int (of_char c) - 48"

definition digits_value :: "string \<Rightarrow> int" where
  "digits_value s = foldl (\<lambda>a c. 10 * a + digit_value c) 0 s"

definition int_literal :: "string \<Rightarrow> int option" where
  "int_literal s =
     (if s \<noteq> [] \<and> list_all is_digit s \<and> length s \<le> 16
      then Some (digits_value s) else None)"

text \<open>
  The \<^verbatim>\<open>float64\<close> that is nearest to an integer \<open>n\<close> with \<open>0 \<le> n < 2 ^ 54\<close>, as an integer: up
  to \<open>2 ^ 53\<close> it is \<open>n\<close> itself, above that the floats are the even integers and an odd \<open>n\<close>
  lies halfway between two of them, of which the one with the even significand is taken
  (round half to even).
\<close>

definition float64_nearest :: "int \<Rightarrow> int" where
  "float64_nearest n =
     (if n \<le> 2 ^ 53 \<or> even n then n else if even (n div 2) then n - 1 else n + 1)"

text \<open>
  The texts in which the parser surely finds no number: it wants a decimal digit, unless
  the text spells infinity (\<^verbatim>\<open>inf\<close>, \<^verbatim>\<open>Infinity\<close> and the like). So a text without a digit
  in which the letters \<^verbatim>\<open>inf\<close> do not follow one another, in either case of each, is not
  a number; every other text is left to the parser.
\<close>

definition ascii_lower :: "char \<Rightarrow> char" where
  "ascii_lower c =
     (case map_of (zip ''ABCDEFGHIJKLMNOPQRSTUVWXYZ'' ''abcdefghijklmnopqrstuvwxyz'') c of
        Some l \<Rightarrow> l
      | None \<Rightarrow> c)"

fun has_inf :: "string \<Rightarrow> bool" where
  "has_inf (a # b # c # s) = (map ascii_lower [a, b, c] = ''inf'' \<or> has_inf (b # c # s))"
| "has_inf s = False"

definition digit_free :: "string \<Rightarrow> bool" where
  "digit_free s = (\<not> list_ex is_digit s)"

section \<open>Tables\<close>

text \<open>
  A cell of a table is a Python object taken from a document, or what \<^verbatim>\<open>to_numeric\<close> makes
  of a text: \<open>Num n\<close>, a number whose value is the integer \<open>n\<close>, in an \<^verbatim>\<open>int64\<close> or a
  \<^verbatim>\<open>float64\<close> column; \<open>Parsed s\<close>, the number that the parser of pandas reads from the text
  \<open>s\<close> and the column holds, its value outside the model; or NaN, the missing value.
\<close>

datatype cell = Obj json | Num int | Parsed string | NaN

text \<open>
  A \<^verbatim>\<open>DataFrame\<close>: the length of its index and its columns in order, each a name and its
  cells. In a frame that pandas builds every column has \<open>nrows\<close> cells and the names are
  distinct (\<open>wf_frame\<close>). The dtype that pandas infers for a column when it builds
  a frame is not modelled: a cell keeps the value it was built from.
\<close>

record dataframe =
  nrows :: nat
  columns :: "(string \<times> cell list) list"

definition wf_frame :: "dataframe \<Rightarrow> bool" where
  "wf_frame df =
     (distinct (map fst (columns df)) \<and> list_all (\<lambda>kc. length (snd kc) = nrows df) (columns df))"

text \<open>\<^verbatim>\<open>df.empty\<close>: some axis has length 0.\<close>

definition df_empty :: "dataframe \<Rightarrow> bool" where
  "df_empty df = (nrows df = 0 \<or> columns df = [])"

text \<open>
  \<^verbatim>\<open>pd.DataFrame(rows)\<close> for a list of dicts: no row gives a frame with no column; the
  columns are otherwise the keys in the order the rows bring them (every row of the
  scraper is built by one dict display, so these are the keys of the first row), and a
  key that a row lacks would give NaN.
\<close>

definition DataFrame_rows :: "(string \<times> cell) list list \<Rightarrow> dataframe" where
  "DataFrame_rows rows =
     (case rows of
        [] \<Rightarrow> \<lparr>nrows = 0, columns = []\<rparr>
      | r # _ \<Rightarrow>
          \<lparr>nrows = length rows,
           columns = map (\<lambda>k. (k, map (\<lambda>row. case map_of row k of Some c \<Rightarrow> c | None \<Rightarrow> NaN) rows))
                       (map fst r)\<rparr>)"

text \<open>\<^verbatim>\<open>pd.DataFrame(columns=names)\<close>: the columns and no row.\<close>

definition DataFrame_columns :: "string list \<Rightarrow> dataframe" where
  "DataFrame_columns names = \<lparr>nrows = 0, columns = map (\<lambda>k. (k, [])) names\<rparr>"

text \<open>
  \<^verbatim>\<open>pd.DataFrame({name: series, ...})\<close> for series that share one index: the columns in
  the order of the dict, the index of the series.
\<close>

definition DataFrame_dict :: "(string \<times> cell list) list \<Rightarrow> dataframe" where
  "DataFrame_dict cols =
     \<lparr>nrows = (case cols of [] \<Rightarrow> 0 | kc # _ \<Rightarrow> length (snd kc)), columns = cols\<rparr>"

text \<open>\<^verbatim>\<open>df[k]\<close> raises \<^verbatim>\<open>KeyError\<close> for a name that is not a column.\<close>

definition getitem :: "dataframe \<Rightarrow> string \<Rightarrow> exn + cell list" where
  "getitem df k =
     (case map_of (columns df) k of
        Some col \<Rightarrow> Inr col
      | None \<Rightarrow> Inl (KeyError ([CHR 0x27] @ k @ [CHR 0x27])))"

text \<open>
  \<^verbatim>\<open>df[k] = series\<close>, for a series on the index of the frame: an existing column is
  replaced where it stands, a new one goes last.
\<close>

definition setitem :: "dataframe \<Rightarrow> string \<Rightarrow> cell list \<Rightarrow> dataframe" where
  "setitem df k col = df\<lparr>columns := AList.update k col (columns df)\<rparr>"

section \<open>What the run takes from outside\<close>

text \<open>What \<^verbatim>\<open>get_json\<close> meets at a URL.\<close>

datatype reply =
    NoReply string  \<comment> \<open>\<^verbatim>\<open>requests.get\<close> raises: no connection, timeout, ... (not an \<^verbatim>\<open>HTTPError\<close>)\<close>
  | ErrorStatus string  \<comment> \<open>a 4xx or 5xx status: \<^verbatim>\<open>raise_for_status\<close> raises \<^verbatim>\<open>HTTPError\<close>\<close>
  | NotJSON string  \<comment> \<open>the body is not JSON: \<^verbatim>\<open>r.json()\<close> raises \<^verbatim>\<open>JSONDecodeError\<close>\<close>
  | Body json

text \<open>
  The web, the clock, the credentials file, and the behaviour of Python and pandas that
  is left open here: every theorem holds whatever these are.
\<close>

record env =
  http :: "string \<Rightarrow> reply"
  repr :: "json \<Rightarrow> string"  \<comment> \<open>\<^verbatim>\<open>str\<close> of a list or a dict\<close>
  number_str :: "cell \<Rightarrow> string"  \<comment> \<open>\<^verbatim>\<open>astype(str)\<close> of a number made by \<^verbatim>\<open>to_numeric\<close>\<close>
  is_number :: "string \<Rightarrow> bool"
    \<comment> \<open>whether the parser of \<^verbatim>\<open>to_numeric\<close> reads a number from a text, asked of a text
        that has a digit or \<^verbatim>\<open>inf\<close> in it and is not an integer literal\<close>
  setitem_seq :: "dataframe \<Rightarrow> string \<Rightarrow> json \<Rightarrow> exn + dataframe"
    \<comment> \<open>\<^verbatim>\<open>df[k] = v\<close> for a list or a dict \<^verbatim>\<open>v\<close>\<close>
  utcnow :: string  \<comment> \<open>\<^verbatim>\<open>pd.Timestamp.utcnow().isoformat(timespec="seconds")\<close>\<close>
  credentials :: "exn option"  \<comment> \<open>what loading the service account file raises, if anything\<close>

text \<open>\<^verbatim>\<open>str(v)\<close>.\<close>

fun py_str :: "env \<Rightarrow> json \<Rightarrow> string" where
  "py_str E (JStr s) = s"
| "py_str E (JInt n) = str_int n"
| "py_str E (JFloat r) = r"
| "py_str E (JBool b) = (if b then ''True'' else ''False'')"
| "py_str E JNull = ''None''"
| "py_str E j = repr E j"

text \<open>\<^verbatim>\<open>series.astype(str)\<close>, cell by cell.\<close>

fun cell_str :: "env \<Rightarrow> cell \<Rightarrow> string" where
  "cell_str E (Obj j) = py_str E j"
| "cell_str E c = number_str E c"

text \<open>
  \<^verbatim>\<open>pd.to_numeric(series, errors="coerce")\<close> on a column of strings. Nothing is raised: a
  text that is not a number gives NaN. Such a text is one without a digit and without
  \<^verbatim>\<open>inf\<close>, or one that is not an integer literal and that the parser refuses.
\<close>

definition not_number :: "env \<Rightarrow> string \<Rightarrow> bool" where
  "not_number E s =
     (int_literal s = None \<and> (digit_free s \<and> \<not> has_inf s \<or> \<not> is_number E s))"

text \<open>
  The column that results has one dtype. When every text is an integer literal it is
  \<^verbatim>\<open>int64\<close> and holds the integers themselves. When a text is not a number the column is
  \<^verbatim>\<open>float64\<close>, NaN being a float: an integer literal is stored as the nearest float, which
  is the integer itself up to \<open>2 ^ 53\<close> only. Otherwise the column has a number that is
  left to the parser, on which the dtype depends; then an integer literal up to \<open>2 ^ 53\<close>
  is stored as itself under any dtype, and what a greater one is stored as is left open.
\<close>

definition to_numeric :: "env \<Rightarrow> string list \<Rightarrow> cell list" where
  "to_numeric E col =
     (if list_all (\<lambda>s. int_literal s \<noteq> None) col
      then map (\<lambda>s. Num (digits_value s)) col
      else if list_ex (not_number E) col
      then map (\<lambda>s. case int_literal s of
                       Some n \<Rightarrow> Num (float64_nearest n)
                     | None \<Rightarrow> if not_number E s then NaN else Parsed s) col
      else map (\<lambda>s. case int_literal s of
                       Some n \<Rightarrow> if n \<le> 2 ^ 53 then Num n else Parsed s
                     | None \<Rightarrow> Parsed s) col)"

text \<open>\<^verbatim>\<open>pd.to_numeric(series.astype(str).str.replace(",", ""), errors="coerce")\<close>.\<close>

definition clean_numeric :: "env \<Rightarrow> cell list \<Rightarrow> cell list" where
  "clean_numeric E col = to_numeric E (map (\<lambda>c. py_replace '','' '''' (cell_str E c)) col)"

section \<open>Configuration\<close>

definition ELECTION_ID :: int where
  "ELECTION_ID = 97"

definition SHEET_NAME :: string where
  "SHEET_NAME = ''municipal-elections-2025-angela''"

definition BASE :: string where
  "BASE = ''https://ctemsmedia.tgstg.net/ng-app/data/election''"

definition TABS :: "(string \<times> string) list" where
  "TABS =
     [(''Results_EN'', ''Results_EN''), (''Turnout_EN'', ''Turnout_EN''),
      (''Results_ES'', ''Results_ES''), (''Turnout_ES'', ''Turnout_ES'')]"

text \<open>The accented letters are the two bytes of their UTF-8 form.\<close>

definition PARTY_ES :: "(string \<times> string) list" where
  "PARTY_ES =
     [(''Democratic Party'', ''Partido Dem'' @ [CHR 0xC3, CHR 0xB3] @ ''crata''),
      (''Republican Party'', ''Partido Republicano''),
      (''Working Families Party'', ''Partido de Familias Trabajadoras''),
      (''Green Party'', ''Partido Verde''),
      (''Independent Party'', ''Partido Independiente''),
      (''Write In'', ''Candidato por escrito''),
      (''Petitioning Candidate'', ''Candidato por petici'' @ [CHR 0xC3, CHR 0xB3] @ ''n''),
      (''Conservative Party'', ''Partido Conservador'')]"

section \<open>Fetching the documents\<close>

text \<open>\<^verbatim>\<open>get_json\<close>: the request, \<^verbatim>\<open>raise_for_status\<close>, \<^verbatim>\<open>r.json()\<close>.\<close>

definition get_json :: "env \<Rightarrow> string \<Rightarrow> exn + json" where
  "get_json E url =
     (case http E url of
        NoReply m \<Rightarrow> Inl (RequestError m)
      | ErrorStatus m \<Rightarrow> Inl (HTTPError m)
      | NotJSON m \<Rightarrow> Inl (JSONDecodeError m)
      | Body j \<Rightarrow> Inr j)"

text \<open>
  \<^verbatim>\<open>fetch_lookup_election\<close>: the inner \<^verbatim>\<open>try\<close> catches \<^verbatim>\<open>requests.HTTPError\<close> only, the
  outer one every exception, which it wraps. \<^verbatim>\<open>.get("Version")\<close> has no default, so a
  document without the key gives \<^verbatim>\<open>None\<close>.
\<close>

definition fetch_lookup_election :: "env \<Rightarrow> int \<Rightarrow> exn + (json \<times> json \<times> json)" where
  "fetch_lookup_election E eid =
     (case
        and_then (get_json E (BASE @ ''/'' @ str_int eid @ ''/Version.json'')) (\<lambda>vdoc.
        and_then (py_get vdoc ''Version'' JNull) (\<lambda>ver.
          (case
             and_then (get_json E (BASE @ ''/'' @ str_int eid @ ''/Lookup.json'')) (\<lambda>lookup.
             and_then (get_json E (BASE @ ''/'' @ str_int eid @ ''/Election.json'')) (\<lambda>election.
               Inr (lookup, election, ver)))
           of
             Inl (HTTPError m) \<Rightarrow>
               and_then
                 (get_json E (BASE @ ''/'' @ str_int eid @ ''/'' @ py_str E ver @ ''/Lookupdata.json''))
                 (\<lambda>lookup.
               and_then
                 (get_json E (BASE @ ''/'' @ str_int eid @ ''/'' @ py_str E ver @ ''/Electiondata.json''))
                 (\<lambda>election.
                 Inr (lookup, election, ver)))
           | r \<Rightarrow> r)))
      of
        Inl e \<Rightarrow> Inl (RuntimeError (''Could not fetch election '' @ str_int eid @ '': '' @ exn_msg e))
      | Inr x \<Rightarrow> Inr x)"

section \<open>The results and turnout tables\<close>

text \<open>
  A \<^verbatim>\<open>for\<close> loop whose passes append rows to a list that only the loop's function holds:
  the rows of the passes in order, or the first exception.
\<close>

fun collect :: "('a \<Rightarrow> exn + 'b list) \<Rightarrow> 'a list \<Rightarrow> exn + 'b list" where
  "collect f [] = Inr []"
| "collect f (x # xs) =
     and_then (f x) (\<lambda>ys. and_then (collect f xs) (\<lambda>zs. Inr (ys @ zs)))"

text \<open>
  The body of the innermost loop of \<^verbatim>\<open>parse_results\<close>, in the order Python evaluates
  it: in \<^verbatim>\<open>parties.get(str(cmeta.get("P", "")), {})\<close> the method \<^verbatim>\<open>parties.get\<close> is looked up
  before the argument is evaluated. \<^verbatim>\<open>towns\<close>, \<^verbatim>\<open>parties\<close> and \<^verbatim>\<open>candidates\<close> are whatever
  the lookup document holds under their keys; \<^verbatim>\<open>offices\<close> is the dict that
  \<^verbatim>\<open>build_office_map\<close> made.
\<close>

definition result_row ::
  "env \<Rightarrow> json \<Rightarrow> json \<Rightarrow> json \<Rightarrow> (string \<times> json) list \<Rightarrow>
   string \<Rightarrow> string \<Rightarrow> string \<Rightarrow> json \<Rightarrow> exn + (string \<times> cell) list" where
  "result_row E towns parties candidates offices tid oid cid vals =
     and_then (py_get candidates cid (JObj [])) (\<lambda>cmeta.
     and_then (get_method parties) (\<lambda>party_dict.
     and_then (py_get cmeta ''P'' (JStr '''')) (\<lambda>p.
     and_then (py_get (dict_get party_dict (py_str E p) (JObj [])) ''NM'' (JStr '''')) (\<lambda>pname.
     and_then (py_get towns tid (JStr '''')) (\<lambda>town_name.
     and_then (py_get cmeta ''NM'' (JStr '''')) (\<lambda>candidate_name.
     and_then (py_get vals ''V'' (JStr '''')) (\<lambda>votes.
     and_then (py_get vals ''TO'' (JStr '''')) (\<lambda>percent.
       Inr [(''town_name'', Obj town_name),
            (''office_name'', Obj (dict_get offices oid (JStr ''''))),
            (''candidate_name'', Obj candidate_name),
            (''party'', Obj pname),
            (''votes'', Obj votes),
            (''percent'', Obj percent),
            (''town_id'', Obj (JStr tid)),
            (''office_id'', Obj (JStr oid)),
            (''candidate_id'', Obj (JStr cid))]))))))))"

definition result_rows ::
  "env \<Rightarrow> json \<Rightarrow> json \<Rightarrow> json \<Rightarrow> (string \<times> json) list \<Rightarrow> (string \<times> json) list \<Rightarrow>
   exn + (string \<times> cell) list list" where
  "result_rows E towns parties candidates offices town_votes =
     collect (\<lambda>(tid, contests).
       and_then (py_items contests) (collect (\<lambda>(oid, cands).
         and_then (py_iter cands) (collect (\<lambda>entry.
           and_then (py_items entry) (collect (\<lambda>(cid, vals).
             and_then (result_row E towns parties candidates offices tid oid cid vals)
               (\<lambda>row. Inr [row])))))))) town_votes"

definition parse_results :: "env \<Rightarrow> json \<Rightarrow> json \<Rightarrow> exn + dataframe" where
  "parse_results E lookup election =
     and_then (py_get lookup ''townIds'' (JObj [])) (\<lambda>towns.
     and_then (py_get lookup ''partyIds'' (JObj [])) (\<lambda>parties.
     and_then (py_get lookup ''candidateIds'' (JObj [])) (\<lambda>candidates.
     and_then (py_get lookup ''officeList'' (JArr [])) (\<lambda>office_list.
     and_then (build_office_map office_list) (\<lambda>offices.
     and_then (py_get election ''townVotes'' (JObj [])) (\<lambda>town_votes.
     and_then (py_items town_votes) (\<lambda>items.
     and_then (result_rows E towns parties candidates offices items) (\<lambda>rows.
       let df = DataFrame_rows rows in
       if \<not> df_empty df
       then and_then (getitem df ''votes'') (\<lambda>votes.
              Inr (setitem df ''votes'' (clean_numeric E votes)))
       else Inr df))))))))"

text \<open>\<^verbatim>\<open>parse_turnout\<close>: the body of its loop, the loop, the two columns made numeric.\<close>

definition turnout_row :: "json \<Rightarrow> string \<Rightarrow> json \<Rightarrow> exn + (string \<times> cell) list" where
  "turnout_row town_status tid d =
     and_then (py_get town_status tid (JObj [])) (\<lambda>status.
     and_then (py_get status ''PR'' (JStr '''')) (\<lambda>precincts_reported.
     and_then (py_get d ''NM'' (JStr '''')) (\<lambda>town_name.
     and_then (py_get d ''EV'' (JStr '''')) (\<lambda>electors.
     and_then (py_get d ''VV'' (JStr '''')) (\<lambda>votes_cast.
     and_then (py_get d ''TO'' (JStr '''')) (\<lambda>turnout_percent.
       Inr [(''town_id'', Obj (JStr tid)),
            (''town_name'', Obj town_name),
            (''precincts_reported'', Obj precincts_reported),
            (''electors'', Obj electors),
            (''votes_cast'', Obj votes_cast),
            (''turnout_percent'', Obj turnout_percent)]))))))"

definition parse_turnout :: "env \<Rightarrow> json \<Rightarrow> exn + dataframe" where
  "parse_turnout E election =
     and_then (py_get election ''voterTurnout'' (JObj [])) (\<lambda>vt.
     and_then (py_get election ''townStatus'' (JObj [])) (\<lambda>town_status.
     and_then (py_items vt) (\<lambda>items.
     and_then (collect (\<lambda>(tid, d). and_then (turnout_row town_status tid d) (\<lambda>row. Inr [row])) items)
       (\<lambda>rows.
       let df = DataFrame_rows rows in
       if \<not> df_empty df
       then and_then (getitem df ''electors'') (\<lambda>electors.
            let df1 = setitem df ''electors'' (clean_numeric E electors) in
            and_then (getitem df1 ''votes_cast'') (\<lambda>votes_cast.
              Inr (setitem df1 ''votes_cast'' (clean_numeric E votes_cast))))
       else Inr df))))"

section \<open>The Spanish tables\<close>

text \<open>
  \<^verbatim>\<open>df.copy()\<close> and \<^verbatim>\<open>df2[k] = ...\<close> are about which table object is written, so the tables
  live in a store and are named by their place in it; a new table goes to the end.
\<close>

type_synonym store = "dataframe list"

definition new_frame :: "store \<Rightarrow> dataframe \<Rightarrow> nat \<times> store" where
  "new_frame H df = (length H, H @ [df])"

text \<open>\<^verbatim>\<open>series.map(f)\<close>: \<^verbatim>\<open>f\<close> on every cell in order, or the first exception.\<close>

fun map_series :: "(cell \<Rightarrow> exn + cell) \<Rightarrow> cell list \<Rightarrow> exn + cell list" where
  "map_series f [] = Inr []"
| "map_series f (c # cs) =
     and_then (f c) (\<lambda>d. and_then (map_series f cs) (\<lambda>ds. Inr (d # ds)))"

text \<open>
  \<^verbatim>\<open>lambda x: PARTY_ES.get(x, x)\<close>: a list or a dict cannot be looked up in a dict; the
  keys are strings, so nothing but a string is found.
\<close>

fun party_es :: "cell \<Rightarrow> exn + cell" where
  "party_es (Obj (JStr s)) =
     Inr (case map_of PARTY_ES s of Some t \<Rightarrow> Obj (JStr t) | None \<Rightarrow> Obj (JStr s))"
| "party_es (Obj (JArr xs)) = Inl (TypeError (''unhashable type: '' @ [CHR 0x27] @ ''list'' @ [CHR 0x27]))"
| "party_es (Obj (JObj d)) = Inl (TypeError (''unhashable type: '' @ [CHR 0x27] @ ''dict'' @ [CHR 0x27]))"
| "party_es c = Inr c"

definition to_es_results :: "store \<Rightarrow> nat \<Rightarrow> (exn + nat) \<times> store" where
  "to_es_results H df =
     (if df_empty (H ! df) then
        (let (r, H') = new_frame H (DataFrame_columns
               [''Ciudad'', ''Cargo'', ''Candidato'', ''Partido'', ''Votos'', ''Porcentaje''])
         in (Inr r, H'))
      else
        (let (df2, H1) = new_frame H (H ! df) in
         case and_then (getitem (H1 ! df2) ''party'') (map_series party_es) of
           Inl e \<Rightarrow> (Inl e, H1)
         | Inr party \<Rightarrow>
            (let H2 = H1[df2 := setitem (H1 ! df2) ''party'' party] in
             case
               and_then (getitem (H2 ! df2) ''town_name'') (\<lambda>town_name.
               and_then (getitem (H2 ! df2) ''office_name'') (\<lambda>office_name.
               and_then (getitem (H2 ! df2) ''candidate_name'') (\<lambda>candidate_name.
               and_then (getitem (H2 ! df2) ''party'') (\<lambda>party.
               and_then (getitem (H2 ! df2) ''votes'') (\<lambda>votes.
               and_then (getitem (H2 ! df2) ''percent'') (\<lambda>percent.
                 Inr (DataFrame_dict
                   [(''Ciudad'', town_name),
                    (''Cargo'', office_name),
                    (''Candidato'', candidate_name),
                    (''Partido'', party),
                    (''Votos'', votes),
                    (''Porcentaje'', percent)])))))))
             of
               Inl e \<Rightarrow> (Inl e, H2)
             | Inr out \<Rightarrow> (let (r, H3) = new_frame H2 out in (Inr r, H3)))))"

text \<open>\<^verbatim>\<open>series.astype(str).str.replace(" of ", " de ")\<close>: a column of strings.\<close>

definition precincts_es :: "env \<Rightarrow> cell list \<Rightarrow> cell list" where
  "precincts_es E col = map (\<lambda>c. Obj (JStr (py_replace '' of '' '' de '' (cell_str E c)))) col"

definition to_es_turnout :: "env \<Rightarrow> store \<Rightarrow> nat \<Rightarrow> (exn + nat) \<times> store" where
  "to_es_turnout E H df =
     (if df_empty (H ! df) then
        (let (r, H') = new_frame H (DataFrame_columns
               [''Ciudad'', ''Precintos reportados'', ''Habilitados'', ''Votantes'',
                ''% Participaci'' @ [CHR 0xC3, CHR 0xB3] @ ''n''])
         in (Inr r, H'))
      else
        (let (df2, H1) = new_frame H (H ! df) in
         case getitem (H1 ! df2) ''precincts_reported'' of
           Inl e \<Rightarrow> (Inl e, H1)
         | Inr precincts \<Rightarrow>
            (let H2 = H1[df2 := setitem (H1 ! df2) ''Precintos reportados'' (precincts_es E precincts)] in
             case
               and_then (getitem (H2 ! df2) ''town_name'') (\<lambda>town_name.
               and_then (getitem (H2 ! df2) ''Precintos reportados'') (\<lambda>precintos.
               and_then (getitem (H2 ! df2) ''electors'') (\<lambda>electors.
               and_then (getitem (H2 ! df2) ''votes_cast'') (\<lambda>votes_cast.
               and_then (getitem (H2 ! df2) ''turnout_percent'') (\<lambda>turnout_percent.
                 Inr (DataFrame_dict
                   [(''Ciudad'', town_name),
                    (''Precintos reportados'', precintos),
                    (''Habilitados'', electors),
                    (''Votantes'', votes_cast),
                    (''% Participaci'' @ [CHR 0xC3, CHR 0xB3] @ ''n'', turnout_percent)]))))))
             of
               Inl e \<Rightarrow> (Inl e, H2)
             | Inr out \<Rightarrow> (let (r, H3) = new_frame H2 out in (Inr r, H3)))))"

section \<open>The run\<close>

text \<open>
  The spreadsheet service: its spreadsheets by title, each with its tabs by name, each
  tab with the table its grid shows. Calls to the service are taken to succeed; only
  loading the credentials may raise. The three \<^verbatim>\<open>print\<close> statements that end a run that
  went well are left out.
\<close>

type_synonym spreadsheet = "(string \<times> dataframe) list"

type_synonym drive = "(string \<times> spreadsheet) list"

definition blank :: dataframe where
  "blank = \<lparr>nrows = 0, columns = []\<rparr>"

text \<open>\<^verbatim>\<open>ensure_ws\<close>: the tab cleared, or a new one when \<^verbatim>\<open>WorksheetNotFound\<close> is raised.\<close>

definition ensure_ws :: "spreadsheet \<Rightarrow> string \<Rightarrow> spreadsheet" where
  "ensure_ws sh name =
     (if name \<in> set (map fst sh) then AList.update name blank sh else sh @ [(name, blank)])"

definition write_df :: "spreadsheet \<Rightarrow> string \<Rightarrow> dataframe \<Rightarrow> spreadsheet" where
  "write_df sh name df = AList.update name df (ensure_ws sh name)"

text \<open>
  \<^verbatim>\<open>df[k] = v\<close> for a value that is not a series: a scalar fills the column; what pandas
  does with a list or a dict is left to the environment.
\<close>

definition setitem_value :: "env \<Rightarrow> dataframe \<Rightarrow> string \<Rightarrow> json \<Rightarrow> exn + dataframe" where
  "setitem_value E df k v =
     (case v of
        JArr xs \<Rightarrow> setitem_seq E df k v
      | JObj d \<Rightarrow> setitem_seq E df k v
      | _ \<Rightarrow> Inr (setitem df k (replicate (nrows df) (Obj v))))"

text \<open>The three columns of \<^verbatim>\<open>meta\<close>, on one table and on the tables of the loop.\<close>

definition add_meta :: "env \<Rightarrow> json \<Rightarrow> dataframe \<Rightarrow> exn + dataframe" where
  "add_meta E ver df =
     and_then (setitem_value E df ''election_id'' (JInt ELECTION_ID)) (\<lambda>df1.
     and_then (setitem_value E df1 ''version'' ver) (\<lambda>df2.
       setitem_value E df2 ''scraped_at'' (JStr (utcnow E))))"

fun add_meta_all :: "env \<Rightarrow> json \<Rightarrow> store \<Rightarrow> nat list \<Rightarrow> exn + store" where
  "add_meta_all E ver H [] = Inr H"
| "add_meta_all E ver H (df # dfs) =
     and_then (add_meta E ver (H ! df)) (\<lambda>df'. add_meta_all E ver (H[df := df']) dfs)"

text \<open>\<^verbatim>\<open>TABS[k]\<close>, for the four keys that \<^verbatim>\<open>main\<close> uses, all of them in the table.\<close>

definition tab :: "string \<Rightarrow> string" where
  "tab k = (case map_of TABS k of Some name \<Rightarrow> name | None \<Rightarrow> k)"

text \<open>
  \<^verbatim>\<open>main\<close>: what it raises, if anything, and the spreadsheet service after it. The tables
  of the run are in a store of its own.
\<close>

definition main :: "env \<Rightarrow> drive \<Rightarrow> exn option \<times> drive" where
  "main E D =
     (case fetch_lookup_election E ELECTION_ID of
        Inl e \<Rightarrow> (Some e, D)
      | Inr (lookup, election, ver) \<Rightarrow>
     (case parse_results E lookup election of
        Inl e \<Rightarrow> (Some e, D)
      | Inr res \<Rightarrow>
     (case parse_turnout E election of
        Inl e \<Rightarrow> (Some e, D)
      | Inr turn \<Rightarrow>
     (let (df_res, H1) = new_frame [] res;
          (df_turn, H2) = new_frame H1 turn
      in
     (case to_es_results H2 df_res of
        (Inl e, H3) \<Rightarrow> (Some e, D)
      | (Inr df_res_es, H3) \<Rightarrow>
     (case to_es_turnout E H3 df_turn of
        (Inl e, H4) \<Rightarrow> (Some e, D)
      | (Inr df_turn_es, H4) \<Rightarrow>
     (case add_meta_all E ver H4 [df_res, df_turn, df_res_es, df_turn_es] of
        Inl e \<Rightarrow> (Some e, D)
      | Inr H5 \<Rightarrow>
     (case credentials E of
        Some e \<Rightarrow> (Some e, D)
      | None \<Rightarrow>
     (let D1 = (if SHEET_NAME \<in> set (map fst D) then D
                else D @ [(SHEET_NAME, [(''Sheet1'', blank)])]);
          D2 = AList.map_entry SHEET_NAME (\<lambda>sh. write_df sh (tab ''Results_EN'') (H5 ! df_res)) D1;
          D3 = AList.map_entry SHEET_NAME (\<lambda>sh. write_df sh (tab ''Turnout_EN'') (H5 ! df_turn)) D2;
          D4 = AList.map_entry SHEET_NAME (\<lambda>sh. write_df sh (tab ''Results_ES'') (H5 ! df_res_es)) D3;
          D5 = AList.map_entry SHEET_NAME (\<lambda>sh. write_df sh (tab ''Turnout_ES'') (H5 ! df_turn_es)) D4
      in (None, D5))))))))))"

section \<open>Notions used in the statements\<close>

text \<open>
  The (identifier, record) pairs that an \<^verbatim>\<open>officeList\<close> holds, in order; an element that
  is not a dict holds none.
\<close>

definition office_entries :: "json list \<Rightarrow> (string \<times> json) list" where
  "office_entries items = concat (map (\<lambda>item. case item of JObj d \<Rightarrow> d | _ \<Rightarrow> []) items)"

fun is_dict :: "json \<Rightarrow> bool" where
  "is_dict (JObj d) = True"
| "is_dict j = False"

text \<open>The display name of a record: what it has under \<^verbatim>\<open>NM\<close>, else the empty string.\<close>

fun display_name :: "json \<Rightarrow> json" where
  "display_name (JObj r) = (case map_of r ''NM'' of Some nm \<Rightarrow> nm | None \<Rightarrow> JStr '''')"
| "display_name j = JStr ''''"

text \<open>Two outcomes are the same mapping: both are dicts, equal as Python compares dicts.\<close>

definition same_mapping ::
  "exn + (string \<times> json) list \<Rightarrow> exn + (string \<times> json) list \<Rightarrow> bool" where
  "same_mapping r r' = (case (r, r') of (Inr m, Inr m') \<Rightarrow> map_of m = map_of m' | _ \<Rightarrow> False)"

text \<open>The cells that a table has under a name; none when it has no such column.\<close>

definition cells :: "dataframe \<Rightarrow> string \<Rightarrow> cell list" where
  "cells df k = (case map_of (columns df) k of Some col \<Rightarrow> col | None \<Rightarrow> [])"

definition has_columns :: "dataframe \<Rightarrow> string list \<Rightarrow> bool" where
  "has_columns df names = list_all (\<lambda>k. k \<in> set (map fst (columns df))) names"

text \<open>A cell that can be looked up in a dict: anything but a list or a dict.\<close>

fun hashable :: "cell \<Rightarrow> bool" where
  "hashable (Obj (JArr xs)) = False"
| "hashable (Obj (JObj d)) = False"
| "hashable c = True"

text \<open>
  A results table and a turnout table: a frame that has no row, or has the columns that
  the Spanish views read; the party names of a results table can be looked up.
\<close>

definition results_table :: "dataframe \<Rightarrow> bool" where
  "results_table df =
     (wf_frame df \<and>
      (nrows df = 0 \<or>
       has_columns df [''town_name'', ''office_name'', ''candidate_name'', ''party'', ''votes'', ''percent''] \<and>
       list_all hashable (cells df ''party'')))"

definition turnout_table :: "dataframe \<Rightarrow> bool" where
  "turnout_table df =
     (wf_frame df \<and>
      (nrows df = 0 \<or>
       has_columns df [''town_name'', ''precincts_reported'', ''electors'', ''votes_cast'', ''turnout_percent'']))"

text \<open>\<open>occurs_at p s i\<close>: the text \<open>p\<close> stands in \<open>s\<close> from position \<open>i\<close> on; \<open>occurs p s\<close>: somewhere.\<close>

definition occurs_at :: "string \<Rightarrow> string \<Rightarrow> nat \<Rightarrow> bool" where
  "occurs_at p s i = (i + length p \<le> length s \<and> take (length p) (drop i s) = p)"

definition occurs :: "string \<Rightarrow> string \<Rightarrow> bool" where
  "occurs p s = list_ex (occurs_at p s) [0..<Suc (length s)]"

text \<open>
  For the examples: an environment in which nothing is on the web, and an English
  results table and turnout table of the shape \<^verbatim>\<open>parse_results\<close> and \<^verbatim>\<open>parse_turnout\<close> build.
\<close>

definition example_env :: env where
  "example_env =
     \<lparr>http = (\<lambda>url. NoReply ''no route to host''),
      repr = (\<lambda>j. ''[...]''),
      number_str = (\<lambda>c. ''nan''),
      is_number = (\<lambda>s. False),
      setitem_seq = (\<lambda>df k v. Inl (TypeError ''not a scalar'')),
      utcnow = ''2025-11-05T02:00:00+00:00'',
      credentials = None\<rparr>"

definition example_results :: dataframe where
  "example_results =
     \<lparr>nrows = 2,
      columns =
        [(''town_name'', [Obj (JStr ''Hartford''), Obj (JStr ''Hartford'')]),
         (''office_name'', [Obj (JStr ''Mayor''), Obj (JStr ''Mayor'')]),
         (''candidate_name'', [Obj (JStr ''Jane Doe''), Obj (JStr ''John Roe'')]),
         (''party'', [Obj (JStr ''Democratic Party''), Obj (JStr ''Unity Party'')]),
         (''votes'', [Num 1234, NaN]),
         (''percent'', [Obj (JStr ''55%''), Obj (JStr ''45%'')]),
         (''town_id'', [Obj (JStr ''5''), Obj (JStr ''5'')]),
         (''office_id'', [Obj (JStr ''10''), Obj (JStr ''10'')]),
         (''candidate_id'', [Obj (JStr ''100''), Obj (JStr ''101'')])]\<rparr>"

definition example_turnout :: dataframe where
  "example_turnout =
     \<lparr>nrows = 3,
      columns =
        [(''town_id'', [Obj (JStr ''5''), Obj (JStr ''6''), Obj (JStr ''7'')]),
         (''town_name'', [Obj (JStr ''Hartford''), Obj (JStr ''Avon''), Obj (JStr ''Bolton'')]),
         (''precincts_reported'',
            [Obj (JStr ''3 of 5''), Obj (JStr ''reported''), Obj (JStr ''3 of of 5'')]),
         (''electors'', [Num 70000, Num 13000, NaN]),
         (''votes_cast'', [Num 21000, Num 6000, NaN]),
         (''turnout_percent'', [Obj (JStr ''30%''), Obj (JStr ''46%''), Obj (JStr '''')])]\<rparr>"

text \<open>The address made of \<open>BASE\<close> and the given parts, each after a slash.\<close>

definition url_of :: "string list \<Rightarrow> string" where
  "url_of parts = BASE @ concat (map (\<lambda>p. ''/'' @ p) parts)"

fun is_http_error :: "exn \<Rightarrow> bool" where
  "is_http_error (HTTPError m) = True"
| "is_http_error e = False"

text \<open>The message of the error that \<^verbatim>\<open>fetch_lookup_election\<close> raises for a cause.\<close>

definition could_not_fetch :: "int \<Rightarrow> exn \<Rightarrow> exn" where
  "could_not_fetch eid cause =
     RuntimeError (''Could not fetch election '' @ str_int eid @ '': '' @ exn_msg cause)"

text \<open>
  A web on which election 97 is finalised: the version marker says \<open>12\<close>, the documents
  are under the versioned addresses only, and any other address answers 404.
\<close>

definition example_web :: "string \<Rightarrow> reply" where
  "example_web url =
     (if url = ''https://ctemsmedia.tgstg.net/ng-app/data/election/97/Version.json''
        then Body (JObj [(''Version'', JInt 12)])
      else if url = ''https://ctemsmedia.tgstg.net/ng-app/data/election/97/12/Lookupdata.json''
        then Body (JObj [(''townIds'', JObj [(''5'', JStr ''Hartford'')])])
      else if url = ''https://ctemsmedia.tgstg.net/ng-app/data/election/97/12/Electiondata.json''
        then Body (JObj [(''townVotes'', JObj [])])
      else ErrorStatus (''404 Client Error: Not Found for url: '' @ url))"

text \<open>The pairs of a dict and the elements of a list; any other value has none.\<close>

fun pairs :: "json \<Rightarrow> (string \<times> json) list" where
  "pairs (JObj d) = d"
| "pairs j = []"

fun elements :: "json \<Rightarrow> json list" where
  "elements (JArr xs) = xs"
| "elements j = []"

fun is_list :: "json \<Rightarrow> bool" where
  "is_list (JArr xs) = True"
| "is_list j = False"

text \<open>A mapping from identifiers to records: every value is a dict.\<close>

definition records :: "(string \<times> json) list \<Rightarrow> bool" where
  "records d = list_all (\<lambda>kv. is_dict (snd kv)) d"

text \<open>
  Resolving an identifier or a key in a mapping, as the specification has it: what the
  mapping has for it, and the empty string on a miss.
\<close>

definition resolve :: "(string \<times> json) list \<Rightarrow> string \<Rightarrow> json" where
  "resolve d k = (case map_of d k of Some v \<Rightarrow> v | None \<Rightarrow> JStr '''')"

text \<open>The record that a mapping has for an identifier; no pair on a miss.\<close>

definition record_of :: "(string \<times> json) list \<Rightarrow> string \<Rightarrow> (string \<times> json) list" where
  "record_of d k = (case map_of d k of Some r \<Rightarrow> pairs r | None \<Rightarrow> [])"

text \<open>
  The candidate tallies of \<^verbatim>\<open>townVotes\<close>: for every town, every office under it, every
  entry of its candidate sequence and every pair of the entry (one, in the documents the
  specification describes), the three identifiers and the tally record.
\<close>

record tally =
  t_town :: string
  t_office :: string
  t_candidate :: string
  t_vals :: json

definition entry_tallies :: "string \<Rightarrow> string \<Rightarrow> json \<Rightarrow> tally list" where
  "entry_tallies tid oid entry =
     map (\<lambda>cv. \<lparr>t_town = tid, t_office = oid, t_candidate = fst cv, t_vals = snd cv\<rparr>) (pairs entry)"

definition office_tallies :: "string \<Rightarrow> string \<times> json \<Rightarrow> tally list" where
  "office_tallies tid oc = concat (map (entry_tallies tid (fst oc)) (elements (snd oc)))"

definition town_tallies :: "string \<times> json \<Rightarrow> tally list" where
  "town_tallies tc = concat (map (office_tallies (fst tc)) (pairs (snd tc)))"

definition tallies :: "(string \<times> json) list \<Rightarrow> tally list" where
  "tallies tv = concat (map town_tallies tv)"

text \<open>The entries of the candidate sequences of \<^verbatim>\<open>townVotes\<close>, in the same order.\<close>

definition vote_entries :: "(string \<times> json) list \<Rightarrow> json list" where
  "vote_entries tv = concat (map (\<lambda>tc. concat (map (\<lambda>oc. elements (snd oc)) (pairs (snd tc)))) tv)"

text \<open>
  \<^verbatim>\<open>townVotes\<close> as the specification describes it: under every town a dict, under every
  office a list, every entry a dict of tally records.
\<close>

definition entry_shaped :: "json \<Rightarrow> bool" where
  "entry_shaped entry = (is_dict entry \<and> records (pairs entry))"

definition office_shaped :: "string \<times> json \<Rightarrow> bool" where
  "office_shaped oc = (is_list (snd oc) \<and> list_all entry_shaped (elements (snd oc)))"

definition town_shaped :: "string \<times> json \<Rightarrow> bool" where
  "town_shaped tc = (is_dict (snd tc) \<and> list_all office_shaped (pairs (snd tc)))"

definition votes_shaped :: "(string \<times> json) list \<Rightarrow> bool" where
  "votes_shaped tv = list_all town_shaped tv"

text \<open>
  A lookup document with its four sections (a section that is absent is empty), and an
  election document with its \<^verbatim>\<open>townVotes\<close>, or with its \<^verbatim>\<open>voterTurnout\<close> and \<^verbatim>\<open>townStatus\<close>.
\<close>

definition lookup_doc ::
  "json \<Rightarrow> (string \<times> json) list \<Rightarrow> (string \<times> json) list \<Rightarrow> (string \<times> json) list \<Rightarrow> json list \<Rightarrow> bool" where
  "lookup_doc lookup towns parties candidates office_list =
     (is_dict lookup
      \<and> dict_get (pairs lookup) ''townIds'' (JObj []) = JObj towns
      \<and> dict_get (pairs lookup) ''partyIds'' (JObj []) = JObj parties \<and> records parties
      \<and> dict_get (pairs lookup) ''candidateIds'' (JObj []) = JObj candidates \<and> records candidates
      \<and> dict_get (pairs lookup) ''officeList'' (JArr []) = JArr office_list
      \<and> records (office_entries office_list))"

definition votes_doc :: "json \<Rightarrow> (string \<times> json) list \<Rightarrow> bool" where
  "votes_doc election town_votes =
     (is_dict election
      \<and> dict_get (pairs election) ''townVotes'' (JObj []) = JObj town_votes
      \<and> votes_shaped town_votes)"

definition turnout_doc :: "json \<Rightarrow> (string \<times> json) list \<Rightarrow> (string \<times> json) list \<Rightarrow> bool" where
  "turnout_doc election turnout status =
     (is_dict election
      \<and> dict_get (pairs election) ''voterTurnout'' (JObj []) = JObj turnout \<and> records turnout
      \<and> dict_get (pairs election) ''townStatus'' (JObj []) = JObj status \<and> records status)"

text \<open>The party name of a candidate: the candidate's record gives the party identifier.\<close>

definition party_name ::
  "env \<Rightarrow> (string \<times> json) list \<Rightarrow> (string \<times> json) list \<Rightarrow> string \<Rightarrow> json" where
  "party_name E parties candidates cid =
     resolve (record_of parties (py_str E (resolve (record_of candidates cid) ''P''))) ''NM''"

text \<open>The row that \<^verbatim>\<open>parse_results\<close> appends for a tally, before the votes are made numeric.\<close>

definition tally_row ::
  "env \<Rightarrow> (string \<times> json) list \<Rightarrow> (string \<times> json) list \<Rightarrow> (string \<times> json) list \<Rightarrow>
   (string \<times> json) list \<Rightarrow> tally \<Rightarrow> (string \<times> cell) list" where
  "tally_row E towns offices parties candidates t =
     [(''town_name'', Obj (resolve towns (t_town t))),
      (''office_name'', Obj (resolve offices (t_office t))),
      (''candidate_name'', Obj (resolve (record_of candidates (t_candidate t)) ''NM'')),
      (''party'', Obj (party_name E parties candidates (t_candidate t))),
      (''votes'', Obj (resolve (pairs (t_vals t)) ''V'')),
      (''percent'', Obj (resolve (pairs (t_vals t)) ''TO'')),
      (''town_id'', Obj (JStr (t_town t))),
      (''office_id'', Obj (JStr (t_office t))),
      (''candidate_id'', Obj (JStr (t_candidate t)))]"

text \<open>The text that \<^verbatim>\<open>to_numeric\<close> reads for a raw value: its \<^verbatim>\<open>str\<close>, the commas removed.\<close>

definition cleaned :: "env \<Rightarrow> json \<Rightarrow> string" where
  "cleaned E v = py_replace '','' '''' (py_str E v)"

text \<open>The row that \<^verbatim>\<open>parse_turnout\<close> appends for a town, before the counts are made numeric.\<close>

definition town_row :: "(string \<times> json) list \<Rightarrow> string \<times> json \<Rightarrow> (string \<times> cell) list" where
  "town_row status td =
     [(''town_id'', Obj (JStr (fst td))),
      (''town_name'', Obj (resolve (pairs (snd td)) ''NM'')),
      (''precincts_reported'', Obj (resolve (record_of status (fst td)) ''PR'')),
      (''electors'', Obj (resolve (pairs (snd td)) ''EV'')),
      (''votes_cast'', Obj (resolve (pairs (snd td)) ''VV'')),
      (''turnout_percent'', Obj (resolve (pairs (snd td)) ''TO''))]"

text \<open>The worked example of the specification.\<close>

definition spec_lookup :: json where
  "spec_lookup =
     JObj [(''townIds'', JObj [(''5'', JStr ''Hartford'')]),
           (''officeList'', JArr [JObj [(''10'', JObj [(''NM'', JStr ''Mayor'')])]]),
           (''candidateIds'', JObj [(''100'', JObj [(''NM'', JStr ''Jane Doe''), (''P'', JStr ''1'')])]),
           (''partyIds'', JObj [(''1'', JObj [(''NM'', JStr ''Democratic Party'')])])]"

definition spec_election :: json where
  "spec_election =
     JObj [(''townVotes'',
            JObj [(''5'', JObj [(''10'', JArr [JObj [(''100'',
                     JObj [(''V'', JStr ''1,234''), (''TO'', JStr ''55%'')])]])])])]"

text \<open>
  Documents for the examples: a lookup document without \<^verbatim>\<open>officeList\<close> and without party 1,
  and an election document in which candidate 999 and the status of town 6 are unknown
  and some counts are not numbers.
\<close>

definition example_lookup :: json where
  "example_lookup =
     JObj [(''townIds'', JObj [(''5'', JStr ''Hartford'')]),
           (''candidateIds'', JObj [(''100'', JObj [(''NM'', JStr ''Jane Doe''), (''P'', JStr ''1'')])]),
           (''partyIds'', JObj [(''2'', JObj [(''NM'', JStr ''Republican Party'')])])]"

definition example_election :: json where
  "example_election =
     JObj [(''townVotes'',
            JObj [(''5'', JObj [(''10'', JArr
                     [JObj [(''100'', JObj [(''V'', JStr ''1,234''), (''TO'', JStr ''55%'')])],
                      JObj [(''999'', JObj [(''V'', JStr ''n/a'')])]])]),
                  (''6'', JObj [])]),
           (''voterTurnout'',
            JObj [(''5'', JObj [(''NM'', JStr ''Hartford''), (''EV'', JStr ''70,000''),
                                (''VV'', JStr ''21,000''), (''TO'', JStr ''30%''),
                                (''PR'', JStr ''0 of 0'')]),
                  (''6'', JObj [(''NM'', JStr ''Avon''), (''EV'', JStr ''''),
                                (''VV'', JStr ''pending'')])]),
           (''townStatus'', JObj [(''5'', JObj [(''PR'', JStr ''3 of 5'')])])]"



section \<open>The office map: the last entry of an identifier wins\<close>

lemma office_items_fold:
  "\<forall>kv \<in> set d. is_dict (snd kv) \<Longrightarrow>
   office_items out d =
     Inr (fold (\<lambda>kv acc. AList.update (fst kv) (display_name (snd kv)) acc) d out)"
proof (induction d arbitrary: out)
  case Nil
  then show ?case by simp
next
  case (Cons p d)
  obtain k v where p: "p = (k, v)" by (cases p)
  from Cons.prems p obtain r where v: "v = JObj r" by (cases v) auto
  from Cons show ?case by (simp add: p v and_then_def dict_get_def)
qed

lemma office_loop_fold:
  "\<forall>kv \<in> set (office_entries items). is_dict (snd kv) \<Longrightarrow>
   office_loop out items =
     Inr (fold (\<lambda>kv acc. AList.update (fst kv) (display_name (snd kv)) acc)
            (office_entries items) out)"
proof (induction out items rule: office_loop.induct)
  case (2 out d items)
  then show ?case by (simp add: office_entries_def office_items_fold and_then_def)
qed (simp_all add: office_entries_def)

lemma map_of_fold_update:
  "map_of (fold (\<lambda>kv acc. AList.update (fst kv) (f (snd kv)) acc) ps out) =
   map_of (rev (map (\<lambda>kv. (fst kv, f (snd kv))) ps) @ out)"
  by (induction ps arbitrary: out)
    (simp_all add: update_conv' map_add_def fun_eq_iff split: option.splits)

lemma mset_concat_map: "mset (concat (map f xs)) = (\<Sum>x\<in>#mset xs. mset (f x))"
  by (induction xs) simp_all

lemma mset_office_entries:
  "mset items = mset items' \<Longrightarrow> mset (office_entries items) = mset (office_entries items')"
  by (simp add: office_entries_def mset_concat_map)

lemma build_office_map_fold:
  assumes "\<forall>kv \<in> set (office_entries items). is_dict (snd kv)"
  shows "build_office_map (JArr items) =
    Inr (fold (\<lambda>kv acc. AList.update (fst kv) (display_name (snd kv)) acc) (office_entries items) [])"
  using assms by (simp add: build_office_map_def and_then_def office_loop_fold)

lemma map_of_rev_absent:
  "k \<notin> set (map fst ps) \<Longrightarrow> map_of (rev (map (\<lambda>kv. (fst kv, f (snd kv))) ps)) k = None"
  by (simp add: map_of_eq_None_iff image_image)

lemma map_of_rev_last:
  assumes "ps = es1 @ (k, v) # es2" and "k \<notin> set (map fst es2)"
  shows "map_of (rev (map (\<lambda>kv. (fst kv, f (snd kv))) ps)) k = Some (f v)"
proof -
  have "map_of (rev (map (\<lambda>kv. (fst kv, f (snd kv))) es2)) k = None"
    using assms(2) by (rule map_of_rev_absent)
  then show ?thesis
    by (simp add: assms(1) map_add_def)
qed

lemma map_of_rev_perm:
  assumes "mset ps = mset qs" and "distinct (map fst ps)"
  shows "map_of (rev (map (\<lambda>kv. (fst kv, f (snd kv))) ps)) =
         map_of (rev (map (\<lambda>kv. (fst kv, f (snd kv))) qs))"
proof -
  let ?g = "\<lambda>kv. (fst kv, f (snd kv))"
  have fst_g: "map fst (map ?g xs) = map fst xs" for xs :: "('a \<times> 'b) list"
    by (induction xs) simp_all
  have "mset (map fst ps) = mset (map fst qs)"
    using assms(1) by (metis mset_map)
  then have dq: "distinct (map fst qs)"
    using assms(2) by (metis mset_eq_imp_distinct_iff)
  have "set ps = set qs"
    using assms(1) by (metis mset_eq_setD)
  then have "set (rev (map ?g ps)) = set (rev (map ?g qs))"
    by simp
  moreover have "distinct (map fst (rev (map ?g ps)))"
    using assms(2) by (simp add: rev_map[symmetric] fst_g del: map_map)
  moreover have "distinct (map fst (rev (map ?g qs)))"
    using dq by (simp add: rev_map[symmetric] fst_g del: map_map)
  ultimately show ?thesis
    by (simp add: map_of_inject_set)
qed

text \<open>
  C9, as the code has it. For an \<^verbatim>\<open>officeList\<close> whose records are dicts,
  \<^verbatim>\<open>build_office_map\<close> returns a mapping in which every office identifier has the display
  name of its last entry and no other identifier is present; permuting the list gives
  the same mapping when no identifier occurs twice in it.
\<close>

theorem build_office_map_last_wins:
  assumes "\<forall>kv \<in> set (office_entries items). is_dict (snd kv)"
  shows "\<exists>m. build_office_map (JArr items) = Inr m \<and>
    (\<forall>es1 k v es2. office_entries items = es1 @ (k, v) # es2 \<and> k \<notin> set (map fst es2)
       \<longrightarrow> map_of m k = Some (display_name v)) \<and>
    (\<forall>k. k \<notin> set (map fst (office_entries items)) \<longrightarrow> map_of m k = None) \<and>
    (\<forall>items'. mset items' = mset items \<and> distinct (map fst (office_entries items))
       \<longrightarrow> same_mapping (build_office_map (JArr items')) (Inr m))"
proof -
  let ?names = "\<lambda>xs. rev (map (\<lambda>kv. (fst kv, display_name (snd kv))) (office_entries xs))"
  let ?build = "\<lambda>xs. fold (\<lambda>kv acc. AList.update (fst kv) (display_name (snd kv)) acc)
                        (office_entries xs) []"
  have names: "map_of (?build xs) = map_of (?names xs)" for xs
    by (simp add: map_of_fold_update)
  have m: "build_office_map (JArr items) = Inr (?build items)"
    using assms by (rule build_office_map_fold)
  have last: "map_of (?build items) k = Some (display_name v)"
    if "office_entries items = es1 @ (k, v) # es2 \<and> k \<notin> set (map fst es2)" for es1 k v es2
  proof -
    from that have a: "office_entries items = es1 @ (k, v) # es2" and b: "k \<notin> set (map fst es2)"
      by simp_all
    show ?thesis
      unfolding names using a b by (rule map_of_rev_last)
  qed
  have absent: "map_of (?build items) k = None" if "k \<notin> set (map fst (office_entries items))" for k
    unfolding names using that by (rule map_of_rev_absent)
  have perm: "same_mapping (build_office_map (JArr items')) (Inr (?build items))"
    if pd: "mset items' = mset items \<and> distinct (map fst (office_entries items))" for items'
  proof -
    from pd have p: "mset items' = mset items" and d: "distinct (map fst (office_entries items))"
      by simp_all
    have e: "mset (office_entries items) = mset (office_entries items')"
      using p [symmetric] by (rule mset_office_entries)
    then have "set (office_entries items') = set (office_entries items)"
      by (metis mset_eq_setD)
    with assms have "\<forall>kv \<in> set (office_entries items'). is_dict (snd kv)"
      by simp
    then have m': "build_office_map (JArr items') = Inr (?build items')"
      by (rule build_office_map_fold)
    have "map_of (?names items) = map_of (?names items')"
      using e d by (rule map_of_rev_perm)
    then have "map_of (?build items') = map_of (?build items)"
      unfolding names by simp
    then show ?thesis
      unfolding m' same_mapping_def by simp
  qed
  show ?thesis
  proof (intro exI conjI allI impI)
    show "build_office_map (JArr items) = Inr (?build items)"
      by (rule m)
  next
    fix es1 k v es2
    assume "office_entries items = es1 @ (k, v) # es2 \<and> k \<notin> set (map fst es2)"
    then show "map_of (?build items) k = Some (display_name v)"
      by (rule last)
  next
    fix k
    assume "k \<notin> set (map fst (office_entries items))"
    then show "map_of (?build items) k = None"
      by (rule absent)
  next
    fix items'
    assume "mset items' = mset items \<and> distinct (map fst (office_entries items))"
    then show "same_mapping (build_office_map (JArr items')) (Inr (?build items))"
      by (rule perm)
  qed
qed

theorem build_office_map_last_wins_witness:
  "build_office_map (JArr [JObj [(''10'', JObj [(''NM'', JStr ''Mayor'')])],
                           JObj [(''20'', JObj [(''NM'', JStr ''Clerk'')])],
                           JObj [(''10'', JObj [(''NM'', JStr ''First Selectman'')])]])
     = Inr [(''10'', JStr ''First Selectman''), (''20'', JStr ''Clerk'')]
   \<and> same_mapping
       (build_office_map (JArr [JObj [(''20'', JObj [(''NM'', JStr ''Clerk'')])],
                                JObj [(''10'', JObj [(''NM'', JStr ''Mayor'')])]]))
       (build_office_map (JArr [JObj [(''10'', JObj [(''NM'', JStr ''Mayor'')])],
                                JObj [(''20'', JObj [(''NM'', JStr ''Clerk'')])]]))"
proof -
  let ?a = "JObj [(''10'', JObj [(''NM'', JStr ''Mayor'')])]"
  let ?b = "JObj [(''20'', JObj [(''NM'', JStr ''Clerk'')])]"
  let ?c = "JObj [(''10'', JObj [(''NM'', JStr ''First Selectman'')])]"
  have first: "build_office_map (JArr [?a, ?b, ?c])
      = Inr [(''10'', JStr ''First Selectman''), (''20'', JStr ''Clerk'')]"
    by (simp add: build_office_map_def and_then_def dict_get_def)
  have shaped: "\<forall>kv \<in> set (office_entries [?a, ?b]). is_dict (snd kv)"
    by (simp add: office_entries_def)
  from build_office_map_last_wins [OF shaped] obtain m
    where m: "build_office_map (JArr [?a, ?b]) = Inr m"
      and perm: "\<And>items'. mset items' = mset [?a, ?b] \<and> distinct (map fst (office_entries [?a, ?b]))
         \<longrightarrow> same_mapping (build_office_map (JArr items')) (Inr m)"
    by blast
  have "same_mapping (build_office_map (JArr [?b, ?a])) (Inr m)"
    using perm [of "[?b, ?a]"] by (simp add: office_entries_def)
  with m first show ?thesis
    by simp
qed

text \<open>
  C9 as the specification words it fails: the two entries below name the same office,
  and the mapping that results depends on which comes last.
\<close>

theorem build_office_map_order_counterexample:
  "mset [JObj [(''10'', JObj [(''NM'', JStr ''Mayor'')])],
         JObj [(''10'', JObj [(''NM'', JStr ''Clerk'')])]]
     = mset [JObj [(''10'', JObj [(''NM'', JStr ''Clerk'')])],
             JObj [(''10'', JObj [(''NM'', JStr ''Mayor'')])]]
   \<and> build_office_map (JArr [JObj [(''10'', JObj [(''NM'', JStr ''Mayor'')])],
                             JObj [(''10'', JObj [(''NM'', JStr ''Clerk'')])]])
       = Inr [(''10'', JStr ''Clerk'')]
   \<and> build_office_map (JArr [JObj [(''10'', JObj [(''NM'', JStr ''Clerk'')])],
                             JObj [(''10'', JObj [(''NM'', JStr ''Mayor'')])]])
       = Inr [(''10'', JStr ''Mayor'')]
   \<and> \<not> same_mapping
       (build_office_map (JArr [JObj [(''10'', JObj [(''NM'', JStr ''Mayor'')])],
                                JObj [(''10'', JObj [(''NM'', JStr ''Clerk'')])]]))
       (build_office_map (JArr [JObj [(''10'', JObj [(''NM'', JStr ''Clerk'')])],
                                JObj [(''10'', JObj [(''NM'', JStr ''Mayor'')])]]))"
proof -
  have "map_of [(''10'', JStr ''Clerk'')] ''10'' \<noteq> map_of [(''10'', JStr ''Mayor'')] ''10''"
    by simp
  then have "map_of [(''10'', JStr ''Clerk'')] \<noteq> map_of [(''10'', JStr ''Mayor'')]"
    by metis
  then show ?thesis
    by (simp add: build_office_map_def and_then_def dict_get_def same_mapping_def)
qed

section \<open>Tables: reading and writing columns\<close>

lemma and_then_Inr [simp]: "and_then (Inr x) f = f x"
  by (simp add: and_then_def)

lemma and_then_Inl [simp]: "and_then (Inl e) f = Inl e"
  by (simp add: and_then_def)

lemma getitem_cells:
  "k \<in> set (map fst (columns df)) \<Longrightarrow> getitem df k = Inr (cells df k)"
  by (auto simp: getitem_def cells_def map_of_eq_None_iff split: option.splits)

lemma cells_setitem_same: "cells (setitem df k col) k = col"
  by (simp add: cells_def setitem_def update_conv')

lemma cells_setitem_other: "k' \<noteq> k \<Longrightarrow> cells (setitem df k col) k' = cells df k'"
  by (simp add: cells_def setitem_def update_conv')

lemma columns_setitem_names:
  "set (map fst (columns (setitem df k col))) = insert k (set (map fst (columns df)))"
  by (simp add: setitem_def dom_update[unfolded dom_map_of_conv_image_fst, symmetric] dom_map_of_conv_image_fst[symmetric] update_conv')

lemma length_cells:
  "wf_frame df \<Longrightarrow> k \<in> set (map fst (columns df)) \<Longrightarrow> length (cells df k) = nrows df"
  by (auto simp: wf_frame_def cells_def list_all_iff map_of_eq_None_iff
      split: option.splits dest!: map_of_SomeD)

lemma map_series_hashable:
  "list_all hashable col \<Longrightarrow>
   map_series party_es col = Inr (map (\<lambda>c. case party_es c of Inr d \<Rightarrow> d | Inl e \<Rightarrow> c) col)"
proof (induction col)
  case Nil
  then show ?case by simp
next
  case (Cons c col)
  from Cons.prems have "hashable c" by simp
  then obtain d where "party_es c = Inr d"
    by (cases c rule: party_es.cases) simp_all
  with Cons show ?case by simp
qed


lemma to_es_results_empty:
  "df_empty (H ! df) \<Longrightarrow>
   to_es_results H df =
     (Inr (length H),
      H @ [DataFrame_columns
             [''Ciudad'', ''Cargo'', ''Candidato'', ''Partido'', ''Votos'', ''Porcentaje'']])"
  by (simp add: to_es_results_def new_frame_def)

lemma to_es_results_nonempty:
  assumes "results_table (H ! df)" and "\<not> df_empty (H ! df)"
  shows "to_es_results H df =
     (Inr (Suc (length H)),
      H @ [setitem (H ! df) ''party''
             (map (\<lambda>c. case party_es c of Inr d \<Rightarrow> d | Inl e \<Rightarrow> c) (cells (H ! df) ''party'')),
           DataFrame_dict
             [(''Ciudad'', cells (H ! df) ''town_name''),
              (''Cargo'', cells (H ! df) ''office_name''),
              (''Candidato'', cells (H ! df) ''candidate_name''),
              (''Partido'',
                 map (\<lambda>c. case party_es c of Inr d \<Rightarrow> d | Inl e \<Rightarrow> c) (cells (H ! df) ''party'')),
              (''Votos'', cells (H ! df) ''votes''),
              (''Porcentaje'', cells (H ! df) ''percent'')]])"
proof -
  let ?d = "H ! df"
  let ?P = "map (\<lambda>c. case party_es c of Inr d \<Rightarrow> d | Inl e \<Rightarrow> c) (cells ?d ''party'')"
  from assms have cols:
    "''town_name'' \<in> set (map fst (columns ?d))"
    "''office_name'' \<in> set (map fst (columns ?d))"
    "''candidate_name'' \<in> set (map fst (columns ?d))"
    "''party'' \<in> set (map fst (columns ?d))"
    "''votes'' \<in> set (map fst (columns ?d))"
    "''percent'' \<in> set (map fst (columns ?d))"
    and hash: "list_all hashable (cells ?d ''party'')"
    by (simp_all add: results_table_def has_columns_def df_empty_def)
  have party: "and_then (getitem ?d ''party'') (map_series party_es) = Inr ?P"
    by (simp add: getitem_cells [OF cols(4)] map_series_hashable [OF hash])
  have get2: "getitem (setitem ?d ''party'' ?P) k = Inr (cells (setitem ?d ''party'' ?P) k)"
    if "k \<in> set (map fst (columns ?d))" for k
    by (rule getitem_cells) (simp add: columns_setitem_names that del: set_map)
  show ?thesis
    unfolding to_es_results_def new_frame_def
    using assms(2)
    by (simp add: party get2 cols cells_setitem_same cells_setitem_other del: set_map)
qed

section \<open>What \<^verbatim>\<open>replace\<close> does to a string\<close>

lemma occurs_iff: "occurs p s \<longleftrightarrow> (\<exists>u v. s = u @ p @ v)"
proof
  assume "occurs p s"
  then obtain i where i: "occurs_at p s i"
    by (auto simp: occurs_def list_ex_iff)
  then have "s = take i s @ p @ drop (length p) (drop i s)"
    by (metis append_take_drop_id occurs_at_def)
  then show "\<exists>u v. s = u @ p @ v" by blast
next
  assume "\<exists>u v. s = u @ p @ v"
  then obtain u v where "s = u @ p @ v" by blast
  then have "occurs_at p s (length u)" "length u \<in> set [0..<Suc (length s)]"
    by (simp_all add: occurs_at_def)
  then show "occurs p s"
    unfolding occurs_def list_ex_iff by blast
qed

lemma py_replace_length:
  "old \<noteq> [] \<Longrightarrow> length new = length old \<Longrightarrow> length (py_replace old new s) = length s"
proof (induction old new s rule: py_replace.induct)
  case (1 old new)
  then show ?case by simp
next
  case (2 old new c cs)
  show ?case
  proof (cases "take (length old) (c # cs) = old")
    case True
    then have "length (take (length old) (c # cs)) = length old"
      by simp
    then have "length old \<le> length (c # cs)"
      by simp
    with 2 True show ?thesis by simp
  next
    case False
    with 2 show ?thesis by simp
  qed
qed

lemma py_replace_absent:
  "old \<noteq> [] \<Longrightarrow> \<not> occurs old s \<Longrightarrow> py_replace old new s = s"
proof (induction old new s rule: py_replace.induct)
  case (1 old new)
  then show ?case by simp
next
  case (2 old new c cs)
  have no: "take (length old) (c # cs) \<noteq> old"
  proof
    assume "take (length old) (c # cs) = old"
    then have "c # cs = [] @ old @ drop (length old) (c # cs)"
      by (metis append_Nil append_take_drop_id)
    with 2(4) show False unfolding occurs_iff by blast
  qed
  have "\<not> occurs old cs"
  proof
    assume "occurs old cs"
    then obtain u v where "cs = u @ old @ v" unfolding occurs_iff by blast
    then have "c # cs = (c # u) @ old @ v" by simp
    with 2(4) show False unfolding occurs_iff by blast
  qed
  with 2 no show ?case by simp
qed

lemma py_replace_first:
  assumes "old \<noteq> []" and "\<not> occurs old (u @ butlast old)"
  shows "py_replace old new (u @ old @ v) = u @ new @ py_replace old new v"
  using assms(2)
proof (induction u)
  case Nil
  from assms(1) obtain c cs where o: "old @ v = c # cs"
    by (cases old) auto
  have t: "take (length old) (c # cs) = old" and d: "drop (length old) (c # cs) = v"
    using o by (metis append_eq_conv_conj)+
  have "py_replace old new (c # cs) = new @ py_replace old new v"
    by (subst py_replace.simps(2)) (simp only: assms(1) t d if_False if_True refl)
  then show ?case by (simp add: o)
next
  case (Cons a u)
  have len: "length old \<le> length ((a # u) @ butlast old)"
    using assms(1) by (cases old rule: rev_cases) simp_all
  have no: "take (length old) (a # u @ old @ v) \<noteq> old"
  proof
    assume t: "take (length old) (a # u @ old @ v) = old"
    have "a # u @ old @ v = ((a # u) @ butlast old) @ (last old # v)"
      using assms(1) by (simp add: append_butlast_last_id [symmetric] del: append_butlast_last_id) 
    then have "take (length old) ((a # u) @ butlast old) = old"
      using t len by (metis take_append diff_is_0_eq take_0 append_Nil2)
    then have "(a # u) @ butlast old = [] @ old @ drop (length old) ((a # u) @ butlast old)"
      by (metis append_Nil append_take_drop_id)
    with Cons.prems show False unfolding occurs_iff by blast
  qed
  have "\<not> occurs old (u @ butlast old)"
  proof
    assume "occurs old (u @ butlast old)"
    then obtain x y where "u @ butlast old = x @ old @ y" unfolding occurs_iff by blast
    then have "(a # u) @ butlast old = (a # x) @ old @ y" by simp
    with Cons.prems show False unfolding occurs_iff by blast
  qed
  with Cons.IH have "py_replace old new (u @ old @ v) = u @ new @ py_replace old new v"
    by simp
  with no assms(1) show ?case by simp
qed

lemma occurs_at_Cons: "occurs_at p (c # cs) (Suc i) = occurs_at p cs i"
  by (simp add: occurs_at_def)

lemma occurs_at_append: "occurs_at p (xs @ ys) (length xs + i) = occurs_at p ys i"
  by (simp add: occurs_at_def)

lemma occurs_at_0: "occurs_at p (p @ ys) 0"
  by (simp add: occurs_at_def)

lemma py_replace_changes:
  assumes "old \<noteq> []" and "length new = length old"
  shows "j < length s \<Longrightarrow> py_replace old new s ! j \<noteq> s ! j \<Longrightarrow>
    \<exists>i\<le>j. j < i + length old \<and> occurs_at old s i \<and> occurs_at new (py_replace old new s) i"
  using assms
proof (induction old new s arbitrary: j rule: py_replace.induct)
  case (1 old new)
  then show ?case by simp
next
  case (2 old new c cs)
  let ?s = "c # cs"
  let ?rest = "drop (length old) ?s"
  show ?case
  proof (cases "take (length old) ?s = old")
    case True
    have s: "?s = old @ ?rest"
      using append_take_drop_id [of "length old" ?s] True by simp
    have r: "py_replace old new ?s = new @ py_replace old new ?rest"
      by (subst py_replace.simps(2)) (simp only: 2(5) True if_False if_True refl)
    show ?thesis
    proof (cases "j < length old")
      case True
      have "occurs_at old ?s 0"
        by (subst s) (rule occurs_at_0)
      moreover have "occurs_at new (py_replace old new ?s) 0"
        by (subst r) (rule occurs_at_0)
      ultimately show ?thesis
        using True by (intro exI [of _ 0]) simp
    next
      case False
      define j' where "j' = j - length old"
      have j: "j = length old + j'"
        using False by (simp add: j'_def)
      have "length ?s = length old + length ?rest"
        by (subst s) simp
      then have lt: "j' < length ?rest"
        using "2.prems"(1) j by simp
      have a: "py_replace old new ?s ! j = py_replace old new ?rest ! j'"
        by (subst r) (simp add: nth_append j "2.prems"(4))
      have b: "?s ! j = ?rest ! j'"
        by (subst s) (simp add: nth_append j)
      have ne: "py_replace old new ?rest ! j' \<noteq> ?rest ! j'"
        using "2.prems"(2) a b by simp
      from "2.IH"(1) [OF "2.prems"(3) True lt ne "2.prems"(3) "2.prems"(4)]
      obtain i where i: "i \<le> j'" "j' < i + length old" "occurs_at old ?rest i"
        "occurs_at new (py_replace old new ?rest) i"
        by blast
      have "occurs_at old ?s (length old + i)"
        by (subst s) (simp only: occurs_at_append i(3))
      moreover have "occurs_at new (py_replace old new ?s) (length new + i)"
        by (subst r) (simp only: occurs_at_append i(4))
      ultimately show ?thesis
        using i(1,2) j "2.prems"(4) by (intro exI [of _ "length old + i"]) simp
    qed
  next
    case False
    have r: "py_replace old new ?s = c # py_replace old new cs"
      by (subst py_replace.simps(2)) (simp only: 2(5) False if_False)
    show ?thesis
    proof (cases j)
      case 0
      with "2.prems"(2) r show ?thesis by simp
    next
      case (Suc j')
      have lt: "j' < length cs" using "2.prems"(1) Suc by simp
      have ne: "py_replace old new cs ! j' \<noteq> cs ! j'"
        using "2.prems"(2) r Suc by simp
      from "2.IH"(2) [OF "2.prems"(3) False lt ne "2.prems"(3) "2.prems"(4)]
      obtain i where i: "i \<le> j'" "j' < i + length old" "occurs_at old cs i"
        "occurs_at new (py_replace old new cs) i"
        by blast
      have "occurs_at old ?s (Suc i)"
        by (simp only: occurs_at_Cons i(3))
      moreover have "occurs_at new (py_replace old new ?s) (Suc i)"
        by (subst r) (simp only: occurs_at_Cons i(4))
      ultimately show ?thesis
        using i(1,2) Suc by (intro exI [of _ "Suc i"]) simp
    qed
  qed
qed

section \<open>The Spanish tables\<close>

lemma to_es_turnout_empty:
  "df_empty (H ! df) \<Longrightarrow>
   to_es_turnout E H df =
     (Inr (length H),
      H @ [DataFrame_columns
             [''Ciudad'', ''Precintos reportados'', ''Habilitados'', ''Votantes'',
              ''% Participaci'' @ [CHR 0xC3, CHR 0xB3] @ ''n'']])"
  by (simp add: to_es_turnout_def new_frame_def)

lemma to_es_turnout_nonempty:
  assumes "turnout_table (H ! df)" and "\<not> df_empty (H ! df)"
  shows "to_es_turnout E H df =
     (Inr (Suc (length H)),
      H @ [setitem (H ! df) ''Precintos reportados''
             (precincts_es E (cells (H ! df) ''precincts_reported'')),
           DataFrame_dict
             [(''Ciudad'', cells (H ! df) ''town_name''),
              (''Precintos reportados'', precincts_es E (cells (H ! df) ''precincts_reported'')),
              (''Habilitados'', cells (H ! df) ''electors''),
              (''Votantes'', cells (H ! df) ''votes_cast''),
              (''% Participaci'' @ [CHR 0xC3, CHR 0xB3] @ ''n'', cells (H ! df) ''turnout_percent'')]])"
proof -
  let ?d = "H ! df"
  let ?P = "precincts_es E (cells ?d ''precincts_reported'')"
  from assms have cols:
    "''town_name'' \<in> set (map fst (columns ?d))"
    "''precincts_reported'' \<in> set (map fst (columns ?d))"
    "''electors'' \<in> set (map fst (columns ?d))"
    "''votes_cast'' \<in> set (map fst (columns ?d))"
    "''turnout_percent'' \<in> set (map fst (columns ?d))"
    by (simp_all add: turnout_table_def has_columns_def df_empty_def)
  have get2: "getitem (setitem ?d ''Precintos reportados'' ?P) k =
      Inr (cells (setitem ?d ''Precintos reportados'' ?P) k)"
    if "k = ''Precintos reportados'' \<or> k \<in> set (map fst (columns ?d))" for k
    by (rule getitem_cells) (use that in \<open>simp add: columns_setitem_names del: set_map\<close>)
  show ?thesis
    unfolding to_es_turnout_def new_frame_def
    using assms(2)
    by (simp add: getitem_cells [OF cols(2)] get2 cols cells_setitem_same cells_setitem_other
        del: set_map)
qed

lemma cells_no_rows: "wf_frame df \<Longrightarrow> nrows df = 0 \<Longrightarrow> cells df k = []"
  by (auto simp: wf_frame_def cells_def list_all_iff split: option.splits dest!: map_of_SomeD)

lemma empty_results_table:
  "results_table df \<Longrightarrow> df_empty df \<Longrightarrow> nrows df = 0 \<and> cells df k = []"
  using cells_no_rows [of df k]
  by (auto simp: results_table_def df_empty_def has_columns_def)

lemma empty_turnout_table:
  "turnout_table df \<Longrightarrow> df_empty df \<Longrightarrow> nrows df = 0 \<and> cells df k = []"
  using cells_no_rows [of df k]
  by (auto simp: turnout_table_def df_empty_def has_columns_def)

lemma cells_DataFrame_columns:
  "cells (DataFrame_columns names) k = []"
  by (auto simp: cells_def DataFrame_columns_def split: option.splits dest!: map_of_SomeD)

lemma to_es_results_store: "\<exists>ys. snd (to_es_results H df) = H @ ys"
  by (auto simp: to_es_results_def new_frame_def Let_def split: sum.splits)

lemma to_es_turnout_store: "\<exists>ys. snd (to_es_turnout E H df) = H @ ys"
  by (auto simp: to_es_turnout_def new_frame_def Let_def split: sum.splits)

text \<open>
  C10. \<^verbatim>\<open>to_es_results\<close> and \<^verbatim>\<open>to_es_turnout\<close> leave their input table as it was, whatever
  they return or raise: every table that the store held before the call is still there
  unchanged, among them the input, whose party column and precincts column hold the
  values they held. The translation and the substitution are written to the copy.
\<close>

theorem to_es_leaves_input:
  assumes "df < length H"
  shows "take (length H) (snd (to_es_results H df)) = H
    \<and> snd (to_es_results H df) ! df = H ! df
    \<and> cells (snd (to_es_results H df) ! df) ''party'' = cells (H ! df) ''party''
    \<and> take (length H) (snd (to_es_turnout E H df)) = H
    \<and> snd (to_es_turnout E H df) ! df = H ! df
    \<and> cells (snd (to_es_turnout E H df) ! df) ''precincts_reported'' = cells (H ! df) ''precincts_reported''"
proof -
  obtain ys where ys: "snd (to_es_results H df) = H @ ys"
    using to_es_results_store by blast
  obtain zs where zs: "snd (to_es_turnout E H df) = H @ zs"
    using to_es_turnout_store by blast
  show ?thesis
    using assms by (simp add: ys zs nth_append)
qed

text \<open>
  C4. For a results table, \<^verbatim>\<open>to_es_results\<close> returns a table with as many rows as its
  input, and for a turnout table so does \<^verbatim>\<open>to_es_turnout\<close>; the rows are in the order of
  the input: each relabelled column is the input column cell by cell, and the translated
  column has one cell for each row.
\<close>

theorem to_es_same_rows:
  "(results_table (H ! df) \<longrightarrow>
     (\<exists>r H'. to_es_results H df = (Inr r, H')
        \<and> nrows (H' ! r) = nrows (H ! df)
        \<and> cells (H' ! r) ''Ciudad'' = cells (H ! df) ''town_name''
        \<and> cells (H' ! r) ''Cargo'' = cells (H ! df) ''office_name''
        \<and> cells (H' ! r) ''Candidato'' = cells (H ! df) ''candidate_name''
        \<and> length (cells (H' ! r) ''Partido'') = nrows (H ! df)
        \<and> cells (H' ! r) ''Votos'' = cells (H ! df) ''votes''
        \<and> cells (H' ! r) ''Porcentaje'' = cells (H ! df) ''percent''))
   \<and> (turnout_table (H ! df) \<longrightarrow>
     (\<exists>r H'. to_es_turnout E H df = (Inr r, H')
        \<and> nrows (H' ! r) = nrows (H ! df)
        \<and> cells (H' ! r) ''Ciudad'' = cells (H ! df) ''town_name''
        \<and> length (cells (H' ! r) ''Precintos reportados'') = nrows (H ! df)
        \<and> cells (H' ! r) ''Habilitados'' = cells (H ! df) ''electors''
        \<and> cells (H' ! r) ''Votantes'' = cells (H ! df) ''votes_cast''
        \<and> cells (H' ! r) (''% Participaci'' @ [CHR 0xC3, CHR 0xB3] @ ''n'')
            = cells (H ! df) ''turnout_percent''))"
proof (intro conjI impI)
  let ?d = "H ! df"
  assume t: "results_table ?d"
  then have wf: "wf_frame ?d"
    by (simp add: results_table_def)
  show "\<exists>r H'. to_es_results H df = (Inr r, H')
        \<and> nrows (H' ! r) = nrows ?d
        \<and> cells (H' ! r) ''Ciudad'' = cells ?d ''town_name''
        \<and> cells (H' ! r) ''Cargo'' = cells ?d ''office_name''
        \<and> cells (H' ! r) ''Candidato'' = cells ?d ''candidate_name''
        \<and> length (cells (H' ! r) ''Partido'') = nrows ?d
        \<and> cells (H' ! r) ''Votos'' = cells ?d ''votes''
        \<and> cells (H' ! r) ''Porcentaje'' = cells ?d ''percent''"
  proof (cases "df_empty ?d")
    case True
    have z: "nrows ?d = 0" "cells ?d ''town_name'' = []" "cells ?d ''office_name'' = []"
      "cells ?d ''candidate_name'' = []" "cells ?d ''votes'' = []" "cells ?d ''percent'' = []"
      using empty_results_table [OF t True] by simp_all
    show ?thesis
      unfolding to_es_results_empty [OF True]
      by (simp add: z cells_DataFrame_columns) (simp add: DataFrame_columns_def)
  next
    case False
    with t have cols:
      "''town_name'' \<in> set (map fst (columns ?d))"
      "''office_name'' \<in> set (map fst (columns ?d))"
      "''candidate_name'' \<in> set (map fst (columns ?d))"
      "''party'' \<in> set (map fst (columns ?d))"
      "''votes'' \<in> set (map fst (columns ?d))"
      "''percent'' \<in> set (map fst (columns ?d))"
      by (simp_all add: results_table_def has_columns_def df_empty_def)
    show ?thesis
      unfolding to_es_results_nonempty [OF t False]
      by (simp add: nth_append length_cells [OF wf] cols del: set_map)
        (simp add: DataFrame_dict_def cells_def length_cells [OF wf, unfolded cells_def] cols del: set_map)
  qed
next
  let ?d = "H ! df"
  assume t: "turnout_table ?d"
  then have wf: "wf_frame ?d"
    by (simp add: turnout_table_def)
  show "\<exists>r H'. to_es_turnout E H df = (Inr r, H')
        \<and> nrows (H' ! r) = nrows ?d
        \<and> cells (H' ! r) ''Ciudad'' = cells ?d ''town_name''
        \<and> length (cells (H' ! r) ''Precintos reportados'') = nrows ?d
        \<and> cells (H' ! r) ''Habilitados'' = cells ?d ''electors''
        \<and> cells (H' ! r) ''Votantes'' = cells ?d ''votes_cast''
        \<and> cells (H' ! r) (''% Participaci'' @ [CHR 0xC3, CHR 0xB3] @ ''n'')
            = cells ?d ''turnout_percent''"
  proof (cases "df_empty ?d")
    case True
    have z: "nrows ?d = 0" "cells ?d ''town_name'' = []" "cells ?d ''electors'' = []"
      "cells ?d ''votes_cast'' = []" "cells ?d ''turnout_percent'' = []"
      using empty_turnout_table [OF t True] by simp_all
    show ?thesis
      unfolding to_es_turnout_empty [OF True]
      by (simp add: z cells_DataFrame_columns) (simp add: DataFrame_columns_def)
  next
    case False
    with t have cols:
      "''town_name'' \<in> set (map fst (columns ?d))"
      "''precincts_reported'' \<in> set (map fst (columns ?d))"
      "''electors'' \<in> set (map fst (columns ?d))"
      "''votes_cast'' \<in> set (map fst (columns ?d))"
      "''turnout_percent'' \<in> set (map fst (columns ?d))"
      by (simp_all add: turnout_table_def has_columns_def df_empty_def)
    show ?thesis
      unfolding to_es_turnout_nonempty [OF t False]
      by (simp add: nth_append length_cells [OF wf] cols del: set_map)
        (simp add: DataFrame_dict_def cells_def precincts_es_def
           length_cells [OF wf, unfolded cells_def] cols del: set_map)
  qed
qed

lemma party_es_found:
  "map_of PARTY_ES s = Some t \<Longrightarrow> party_es (Obj (JStr s)) = Inr (Obj (JStr t))"
  by simp

lemma party_es_other:
  "hashable c \<Longrightarrow> (\<forall>s. c = Obj (JStr s) \<longrightarrow> map_of PARTY_ES s = None) \<Longrightarrow> party_es c = Inr c"
  by (cases c rule: party_es.cases) simp_all

text \<open>
  C5. In the table that \<^verbatim>\<open>to_es_results\<close> returns for a results table, row by row: a party
  name that is a key of \<open>PARTY_ES\<close> is replaced by the value the table has for it, and
  every other party name is the value of the input, unchanged; nothing is raised.
\<close>

theorem to_es_results_party:
  assumes "results_table (H ! df)"
  shows "\<exists>r H'. to_es_results H df = (Inr r, H')
    \<and> length (cells (H' ! r) ''Partido'') = length (cells (H ! df) ''party'')
    \<and> (\<forall>i s t. i < length (cells (H ! df) ''party'')
          \<and> cells (H ! df) ''party'' ! i = Obj (JStr s) \<and> map_of PARTY_ES s = Some t
        \<longrightarrow> cells (H' ! r) ''Partido'' ! i = Obj (JStr t))
    \<and> (\<forall>i. i < length (cells (H ! df) ''party'')
          \<and> (\<forall>s. cells (H ! df) ''party'' ! i = Obj (JStr s) \<longrightarrow> map_of PARTY_ES s = None)
        \<longrightarrow> cells (H' ! r) ''Partido'' ! i = cells (H ! df) ''party'' ! i)"
proof (cases "df_empty (H ! df)")
  case True
  have "cells (H ! df) ''party'' = []"
    using empty_results_table [OF assms True] by simp
  then show ?thesis
    unfolding to_es_results_empty [OF True]
    by (simp add: cells_DataFrame_columns)
next
  case False
  let ?party = "cells (H ! df) ''party''"
  let ?P = "map (\<lambda>c. case party_es c of Inr d \<Rightarrow> d | Inl e \<Rightarrow> c) ?party"
  from assms False have hash: "list_all hashable ?party"
    by (simp add: results_table_def df_empty_def)
  have partido: "cells ((H @ [setitem (H ! df) ''party'' ?P,
           DataFrame_dict
             [(''Ciudad'', cells (H ! df) ''town_name''),
              (''Cargo'', cells (H ! df) ''office_name''),
              (''Candidato'', cells (H ! df) ''candidate_name''),
              (''Partido'', ?P),
              (''Votos'', cells (H ! df) ''votes''),
              (''Porcentaje'', cells (H ! df) ''percent'')]]) ! Suc (length H)) ''Partido'' = ?P"
    by (simp add: nth_append cells_def DataFrame_dict_def)
  have found: "?P ! i = Obj (JStr t)"
    if "i < length ?party \<and> ?party ! i = Obj (JStr s) \<and> map_of PARTY_ES s = Some t" for i s t
    using that by (simp add: party_es_found)
  have other: "?P ! i = ?party ! i"
    if h: "i < length ?party \<and> (\<forall>s. ?party ! i = Obj (JStr s) \<longrightarrow> map_of PARTY_ES s = None)" for i
  proof -
    from h hash have "hashable (?party ! i)"
      by (simp add: list_all_length)
    with h have "party_es (?party ! i) = Inr (?party ! i)"
      by (intro party_es_other) simp_all
    with h show ?thesis by simp
  qed
  show ?thesis
    unfolding to_es_results_nonempty [OF assms False]
    apply (intro exI conjI allI impI)
       apply (rule refl)
      apply (simp only: partido length_map)
     apply (simp only: partido)
     apply (erule found)
    apply (simp only: partido)
    apply (erule other)
    done
qed

text \<open>
  C6, as the code has it. For every row of a turnout table whose precincts-reported value
  is a string \<open>s\<close>, \<^verbatim>\<open>to_es_turnout\<close> puts a string \<open>t\<close> of the same length in its place:
  \<open>s\<close> itself when \<open>'' of ''\<close> does not occur in it; \<open>''3 de 5''\<close> for \<open>''3 of 5''\<close>; and, when
  the first occurrence of \<open>'' of ''\<close> in \<open>s\<close> comes after \<open>u\<close> and before \<open>v\<close>, the text \<open>u\<close>,
  then \<open>'' de ''\<close>, then what the same replacement makes of \<open>v\<close>, so that the occurrences are
  taken from the left and an occurrence that starts on the closing space of the one
  before it is left as it is. Nothing else changes: wherever \<open>t\<close> differs from \<open>s\<close>, an
  occurrence of \<open>'' of ''\<close> in \<open>s\<close> covers the place and \<open>t\<close> has \<open>'' de ''\<close> there.
\<close>

theorem to_es_turnout_precincts:
  assumes "turnout_table (H ! df)"
  shows "\<exists>r H'. to_es_turnout E H df = (Inr r, H')
    \<and> length (cells (H' ! r) ''Precintos reportados'') = length (cells (H ! df) ''precincts_reported'')
    \<and> (\<forall>i s. i < length (cells (H ! df) ''precincts_reported'')
          \<and> cells (H ! df) ''precincts_reported'' ! i = Obj (JStr s)
        \<longrightarrow> (\<exists>t. cells (H' ! r) ''Precintos reportados'' ! i = Obj (JStr t)
              \<and> length t = length s
              \<and> (\<not> occurs '' of '' s \<longrightarrow> t = s)
              \<and> (s = ''3 of 5'' \<longrightarrow> t = ''3 de 5'')
              \<and> (\<forall>u v. s = u @ '' of '' @ v \<and> \<not> occurs '' of '' (u @ '' of'')
                    \<longrightarrow> t = u @ '' de '' @ py_replace '' of '' '' de '' v)
              \<and> (\<forall>j. j < length s \<and> t ! j \<noteq> s ! j
                    \<longrightarrow> (\<exists>k\<le>j. j < k + 4 \<and> occurs_at '' of '' s k \<and> occurs_at '' de '' t k))))"
proof (cases "df_empty (H ! df)")
  case True
  have "cells (H ! df) ''precincts_reported'' = []"
    using empty_turnout_table [OF assms True] by simp
  then show ?thesis
    unfolding to_es_turnout_empty [OF True]
    by (simp add: cells_DataFrame_columns)
next
  case False
  let ?pr = "cells (H ! df) ''precincts_reported''"
  let ?R = "py_replace '' of '' '' de ''"
  have precintos: "cells ((H @ [setitem (H ! df) ''Precintos reportados'' (precincts_es E ?pr),
           DataFrame_dict
             [(''Ciudad'', cells (H ! df) ''town_name''),
              (''Precintos reportados'', precincts_es E ?pr),
              (''Habilitados'', cells (H ! df) ''electors''),
              (''Votantes'', cells (H ! df) ''votes_cast''),
              (''% Participaci'' @ [CHR 0xC3, CHR 0xB3] @ ''n'', cells (H ! df) ''turnout_percent'')]])
          ! Suc (length H)) ''Precintos reportados'' = precincts_es E ?pr"
    by (simp add: nth_append cells_def DataFrame_dict_def)
  have row: "\<exists>t. precincts_es E ?pr ! i = Obj (JStr t)
              \<and> length t = length s
              \<and> (\<not> occurs '' of '' s \<longrightarrow> t = s)
              \<and> (s = ''3 of 5'' \<longrightarrow> t = ''3 de 5'')
              \<and> (\<forall>u v. s = u @ '' of '' @ v \<and> \<not> occurs '' of '' (u @ '' of'')
                    \<longrightarrow> t = u @ '' de '' @ ?R v)
              \<and> (\<forall>j. j < length s \<and> t ! j \<noteq> s ! j
                    \<longrightarrow> (\<exists>k\<le>j. j < k + 4 \<and> occurs_at '' of '' s k \<and> occurs_at '' de '' t k))"
    if h: "i < length ?pr \<and> ?pr ! i = Obj (JStr s)" for i s
  proof (intro exI [of _ "?R s"] conjI impI allI)
    show "precincts_es E ?pr ! i = Obj (JStr (?R s))"
      using h by (simp add: precincts_es_def)
    show "length (?R s) = length s"
      by (rule py_replace_length) simp_all
    show "?R s = s" if "\<not> occurs '' of '' s"
      using that by (intro py_replace_absent) simp_all
    show "?R s = ''3 de 5''" if "s = ''3 of 5''"
      unfolding that by simp
    show "?R s = u @ '' de '' @ ?R v"
      if "s = u @ '' of '' @ v \<and> \<not> occurs '' of '' (u @ '' of'')" for u v
    proof -
      have "\<not> occurs '' of '' (u @ butlast '' of '')"
        using that by simp
      then have "?R (u @ '' of '' @ v) = u @ '' de '' @ ?R v"
        by (intro py_replace_first) simp_all
      with that show ?thesis by simp
    qed
    show "\<exists>k\<le>j. j < k + 4 \<and> occurs_at '' of '' s k \<and> occurs_at '' de '' (?R s) k"
      if "j < length s \<and> ?R s ! j \<noteq> s ! j" for j
    proof -
      have "\<exists>i\<le>j. j < i + length '' of '' \<and> occurs_at '' of '' s i \<and> occurs_at '' de '' (?R s) i"
        using that by (intro py_replace_changes) simp_all
      moreover have "k + length '' of '' = k + 4" for k
        by simp
      ultimately show ?thesis by (simp only:)
    qed
  qed
  show ?thesis
    unfolding to_es_turnout_nonempty [OF assms False]
    apply (rule exI, rule exI)
    apply (intro conjI allI impI)
      apply (rule refl)
     apply (simp only: precintos)
     apply (simp only: precincts_es_def length_map)
    apply (simp only: precintos)
    apply (erule row)
    done
qed

section \<open>The Spanish tables on the examples\<close>

lemma example_results_table: "results_table example_results"
  by (simp add: results_table_def wf_frame_def has_columns_def example_results_def cells_def)

lemma example_turnout_table: "turnout_table example_turnout"
  by (simp add: turnout_table_def wf_frame_def has_columns_def example_turnout_def)

lemma example_results_nonempty: "\<not> df_empty example_results"
  by (simp add: df_empty_def example_results_def)

lemma example_turnout_nonempty: "\<not> df_empty example_turnout"
  by (simp add: df_empty_def example_turnout_def)

text \<open>C4 on the example tables.\<close>

theorem to_es_same_rows_witness:
  "results_table example_results
   \<and> (\<exists>r H'. to_es_results [example_results] 0 = (Inr r, H')
        \<and> nrows (H' ! r) = 2
        \<and> cells (H' ! r) ''Ciudad'' = [Obj (JStr ''Hartford''), Obj (JStr ''Hartford'')]
        \<and> cells (H' ! r) ''Candidato'' = [Obj (JStr ''Jane Doe''), Obj (JStr ''John Roe'')]
        \<and> cells (H' ! r) ''Votos'' = [Num 1234, NaN])
   \<and> turnout_table example_turnout
   \<and> (\<exists>r H'. to_es_turnout example_env [example_turnout] 0 = (Inr r, H')
        \<and> nrows (H' ! r) = 3
        \<and> cells (H' ! r) ''Ciudad'' = [Obj (JStr ''Hartford''), Obj (JStr ''Avon''), Obj (JStr ''Bolton'')]
        \<and> cells (H' ! r) ''Habilitados'' = [Num 70000, Num 13000, NaN])"
proof -
  have a: "results_table ([example_results] ! 0)"
    by (simp add: example_results_table)
  have b: "turnout_table ([example_turnout] ! 0)"
    by (simp add: example_turnout_table)
  from to_es_same_rows [of "[example_results]" 0 example_env] a
  have "\<exists>r H'. to_es_results [example_results] 0 = (Inr r, H')
        \<and> nrows (H' ! r) = nrows ([example_results] ! 0)
        \<and> cells (H' ! r) ''Ciudad'' = cells ([example_results] ! 0) ''town_name''
        \<and> cells (H' ! r) ''Candidato'' = cells ([example_results] ! 0) ''candidate_name''
        \<and> cells (H' ! r) ''Votos'' = cells ([example_results] ! 0) ''votes''"
    by blast
  then have r: "\<exists>r H'. to_es_results [example_results] 0 = (Inr r, H')
        \<and> nrows (H' ! r) = 2
        \<and> cells (H' ! r) ''Ciudad'' = [Obj (JStr ''Hartford''), Obj (JStr ''Hartford'')]
        \<and> cells (H' ! r) ''Candidato'' = [Obj (JStr ''Jane Doe''), Obj (JStr ''John Roe'')]
        \<and> cells (H' ! r) ''Votos'' = [Num 1234, NaN]"
    by (simp add: example_results_def cells_def)
  from to_es_same_rows [of "[example_turnout]" 0 example_env] b
  have "\<exists>r H'. to_es_turnout example_env [example_turnout] 0 = (Inr r, H')
        \<and> nrows (H' ! r) = nrows ([example_turnout] ! 0)
        \<and> cells (H' ! r) ''Ciudad'' = cells ([example_turnout] ! 0) ''town_name''
        \<and> cells (H' ! r) ''Habilitados'' = cells ([example_turnout] ! 0) ''electors''"
    by blast
  then have t: "\<exists>r H'. to_es_turnout example_env [example_turnout] 0 = (Inr r, H')
        \<and> nrows (H' ! r) = 3
        \<and> cells (H' ! r) ''Ciudad'' = [Obj (JStr ''Hartford''), Obj (JStr ''Avon''), Obj (JStr ''Bolton'')]
        \<and> cells (H' ! r) ''Habilitados'' = [Num 70000, Num 13000, NaN]"
    by (simp add: example_turnout_def cells_def)
  from r t example_results_table example_turnout_table show ?thesis
    by (intro conjI)
qed

text \<open>C10 on a store that holds the two example tables.\<close>

theorem to_es_leaves_input_witness:
  "(0::nat) < length [example_results, example_turnout]
   \<and> snd (to_es_results [example_results, example_turnout] 0) ! 0 = example_results
   \<and> cells (snd (to_es_results [example_results, example_turnout] 0) ! 0) ''party''
       = [Obj (JStr ''Democratic Party''), Obj (JStr ''Unity Party'')]
   \<and> snd (to_es_turnout example_env [example_results, example_turnout] 1) ! 1 = example_turnout
   \<and> cells (snd (to_es_turnout example_env [example_results, example_turnout] 1) ! 1) ''precincts_reported''
       = [Obj (JStr ''3 of 5''), Obj (JStr ''reported''), Obj (JStr ''3 of of 5'')]"
proof -
  have a: "0 < length [example_results, example_turnout]"
    and b: "1 < length [example_results, example_turnout]"
    by simp_all
  have p: "cells example_results ''party'' = [Obj (JStr ''Democratic Party''), Obj (JStr ''Unity Party'')]"
    by (simp add: example_results_def cells_def)
  have q: "cells example_turnout ''precincts_reported''
      = [Obj (JStr ''3 of 5''), Obj (JStr ''reported''), Obj (JStr ''3 of of 5'')]"
    by (simp add: example_turnout_def cells_def)
  from to_es_leaves_input [OF a, of example_env] to_es_leaves_input [OF b, of example_env] p q
  show ?thesis
    by simp
qed

text \<open>C5 on the example results table: one party of the table, one that it does not have.\<close>

theorem to_es_results_party_witness:
  "results_table example_results
   \<and> (\<exists>r H'. to_es_results [example_results] 0 = (Inr r, H')
        \<and> length (cells (H' ! r) ''Partido'') = 2
        \<and> cells (H' ! r) ''Partido'' ! 0 = Obj (JStr (''Partido Dem'' @ [CHR 0xC3, CHR 0xB3] @ ''crata''))
        \<and> cells (H' ! r) ''Partido'' ! 1 = Obj (JStr ''Unity Party''))"
proof -
  let ?party = "cells ([example_results] ! 0) ''party''"
  have a: "results_table ([example_results] ! 0)"
    by (simp add: example_results_table)
  have p: "cells example_results ''party'' = [Obj (JStr ''Democratic Party''), Obj (JStr ''Unity Party'')]"
    by (simp add: example_results_def cells_def)
  from to_es_results_party [OF a] obtain r H'
    where run: "to_es_results [example_results] 0 = (Inr r, H')"
      and len: "length (cells (H' ! r) ''Partido'') = length ?party"
      and found: "\<And>i s t. i < length ?party \<and> ?party ! i = Obj (JStr s) \<and> map_of PARTY_ES s = Some t
          \<longrightarrow> cells (H' ! r) ''Partido'' ! i = Obj (JStr t)"
      and other: "\<And>i. i < length ?party \<and> (\<forall>s. ?party ! i = Obj (JStr s) \<longrightarrow> map_of PARTY_ES s = None)
          \<longrightarrow> cells (H' ! r) ''Partido'' ! i = ?party ! i"
    by blast
  have "cells (H' ! r) ''Partido'' ! 0 = Obj (JStr (''Partido Dem'' @ [CHR 0xC3, CHR 0xB3] @ ''crata''))"
    using found [of 0 "''Democratic Party''" "''Partido Dem'' @ [CHR 0xC3, CHR 0xB3] @ ''crata''"]
    by (simp add: p PARTY_ES_def)
  moreover have "cells (H' ! r) ''Partido'' ! 1 = Obj (JStr ''Unity Party'')"
    using other [of 1] by (simp add: p PARTY_ES_def)
  moreover have "length (cells (H' ! r) ''Partido'') = 2"
    using len by (simp add: p)
  ultimately show ?thesis
    using run example_results_table by (intro conjI exI [of _ r] exI [of _ H']) simp_all
qed

text \<open>C6 on the first two rows of the example turnout table.\<close>

theorem to_es_turnout_precincts_witness:
  "turnout_table example_turnout
   \<and> (\<exists>r H'. to_es_turnout example_env [example_turnout] 0 = (Inr r, H')
        \<and> cells (H' ! r) ''Precintos reportados'' ! 0 = Obj (JStr ''3 de 5'')
        \<and> cells (H' ! r) ''Precintos reportados'' ! 1 = Obj (JStr ''reported''))"
proof -
  let ?pr = "cells ([example_turnout] ! 0) ''precincts_reported''"
  have a: "turnout_table ([example_turnout] ! 0)"
    by (simp add: example_turnout_table)
  have p: "cells example_turnout ''precincts_reported''
      = [Obj (JStr ''3 of 5''), Obj (JStr ''reported''), Obj (JStr ''3 of of 5'')]"
    by (simp add: example_turnout_def cells_def)
  from to_es_turnout_precincts [OF a, of example_env] obtain r H'
    where run: "to_es_turnout example_env [example_turnout] 0 = (Inr r, H')"
      and row: "\<forall>i s. i < length ?pr \<and> ?pr ! i = Obj (JStr s)
        \<longrightarrow> (\<exists>t. cells (H' ! r) ''Precintos reportados'' ! i = Obj (JStr t)
              \<and> length t = length s
              \<and> (\<not> occurs '' of '' s \<longrightarrow> t = s)
              \<and> (s = ''3 of 5'' \<longrightarrow> t = ''3 de 5'')
              \<and> (\<forall>u v. s = u @ '' of '' @ v \<and> \<not> occurs '' of '' (u @ '' of'')
                    \<longrightarrow> t = u @ '' de '' @ py_replace '' of '' '' de '' v)
              \<and> (\<forall>j. j < length s \<and> t ! j \<noteq> s ! j
                    \<longrightarrow> (\<exists>k\<le>j. j < k + 4 \<and> occurs_at '' of '' s k \<and> occurs_at '' de '' t k)))"
    by (elim exE conjE)
  from row [rule_format, of 0 "''3 of 5''"]
  have r0: "cells (H' ! r) ''Precintos reportados'' ! 0 = Obj (JStr ''3 de 5'')"
    by (simp add: p)
  have "\<not> occurs '' of '' ''reported''"
    by (simp add: occurs_def occurs_at_def)
  with row [rule_format, of 1 "''reported''"]
  have r1: "cells (H' ! r) ''Precintos reportados'' ! 1 = Obj (JStr ''reported'')"
    by (simp add: p)
  show ?thesis
    apply (rule conjI [OF example_turnout_table])
    apply (rule exI [of _ r], rule exI [of _ H'])
    apply (intro conjI run r0 r1)
    done
qed

text \<open>
  C6 as the specification words it fails on the third row of the example: \<open>'' of ''\<close>
  occurs twice in \<open>''3 of of 5''\<close>, at 1 and at 4, and the second occurrence is not
  replaced.
\<close>

theorem to_es_turnout_overlap_counterexample:
  "cells example_turnout ''precincts_reported'' ! 2 = Obj (JStr ''3 of of 5'')
   \<and> occurs_at '' of '' ''3 of of 5'' 1
   \<and> occurs_at '' of '' ''3 of of 5'' 4
   \<and> fst (to_es_turnout example_env [example_turnout] 0) = Inr 2
   \<and> cells (snd (to_es_turnout example_env [example_turnout] 0) ! 2) ''Precintos reportados'' ! 2
       = Obj (JStr ''3 de of 5'')
   \<and> occurs_at '' de '' ''3 de of 5'' 1
   \<and> \<not> occurs_at '' de '' ''3 de of 5'' 4"
proof -
  have a: "turnout_table ([example_turnout] ! 0)" and b: "\<not> df_empty ([example_turnout] ! 0)"
    by (simp_all add: example_turnout_table example_turnout_nonempty)
  have p: "cells example_turnout ''precincts_reported''
      = [Obj (JStr ''3 of 5''), Obj (JStr ''reported''), Obj (JStr ''3 of of 5'')]"
    by (simp add: example_turnout_def cells_def)
  have "cells (snd (to_es_turnout example_env [example_turnout] 0) ! 2) ''Precintos reportados''
      = precincts_es example_env (cells example_turnout ''precincts_reported'')"
    unfolding to_es_turnout_nonempty [OF a b]
    by (simp add: cells_def DataFrame_dict_def)
  then have "cells (snd (to_es_turnout example_env [example_turnout] 0) ! 2) ''Precintos reportados'' ! 2
      = Obj (JStr ''3 de of 5'')"
    by (simp add: p precincts_es_def)
  moreover have "fst (to_es_turnout example_env [example_turnout] 0) = Inr 2"
    unfolding to_es_turnout_nonempty [OF a b] by simp
  ultimately show ?thesis
    by (simp add: p occurs_at_def)
qed

section \<open>Fetching: the fallback and the fatal error\<close>

lemma str_int_97: "str_int 97 = ''97''"
  by (simp add: str_int_def str_nat.simps)

lemma str_int_12: "str_int 12 = ''12''"
  by (simp add: str_int_def str_nat.simps)

lemma get_json_Body: "http E url = Body j \<Longrightarrow> get_json E url = Inr j"
  by (simp add: get_json_def)

lemma get_json_ErrorStatus: "http E url = ErrorStatus m \<Longrightarrow> get_json E url = Inl (HTTPError m)"
  by (simp add: get_json_def)

lemma fetch_unfold:
  "fetch_lookup_election E eid =
     (case get_json E (url_of [str_int eid, ''Version.json'']) of
        Inl e \<Rightarrow> Inl (could_not_fetch eid e)
      | Inr vdoc \<Rightarrow>
         (case py_get vdoc ''Version'' JNull of
            Inl e \<Rightarrow> Inl (could_not_fetch eid e)
          | Inr ver \<Rightarrow>
             (case get_json E (url_of [str_int eid, ''Lookup.json'']) of
                Inr lookup \<Rightarrow>
                  (case get_json E (url_of [str_int eid, ''Election.json'']) of
                     Inr election \<Rightarrow> Inr (lookup, election, ver)
                   | Inl e \<Rightarrow>
                      if is_http_error e then
                        (case get_json E (url_of [str_int eid, py_str E ver, ''Lookupdata.json'']) of
                           Inl e' \<Rightarrow> Inl (could_not_fetch eid e')
                         | Inr lookup' \<Rightarrow>
                            (case get_json E (url_of [str_int eid, py_str E ver, ''Electiondata.json'']) of
                               Inl e' \<Rightarrow> Inl (could_not_fetch eid e')
                             | Inr election' \<Rightarrow> Inr (lookup', election', ver)))
                      else Inl (could_not_fetch eid e))
              | Inl e \<Rightarrow>
                  if is_http_error e then
                    (case get_json E (url_of [str_int eid, py_str E ver, ''Lookupdata.json'']) of
                       Inl e' \<Rightarrow> Inl (could_not_fetch eid e')
                     | Inr lookup' \<Rightarrow>
                        (case get_json E (url_of [str_int eid, py_str E ver, ''Electiondata.json'']) of
                           Inl e' \<Rightarrow> Inl (could_not_fetch eid e')
                         | Inr election' \<Rightarrow> Inr (lookup', election', ver)))
                  else Inl (could_not_fetch eid e))))"
  by (simp add: fetch_lookup_election_def url_of_def could_not_fetch_def and_then_def
      split: sum.splits exn.splits)


text \<open>
  C7. When the version marker is a document with the version \<open>ver\<close>, and the fetch of the
  lookup and election documents from the unversioned path fails with an HTTP error status
  (at \<^verbatim>\<open>Lookup.json\<close>, or at \<^verbatim>\<open>Election.json\<close> after \<^verbatim>\<open>Lookup.json\<close> was read),
  \<^verbatim>\<open>fetch_lookup_election\<close> fetches both documents again from the path that has
  \<^verbatim>\<open>str(ver)\<close> after the election identifier, under the names \<^verbatim>\<open>Lookupdata.json\<close> and
  \<^verbatim>\<open>Electiondata.json\<close>, and returns them with \<open>ver\<close> when both are there.
\<close>

theorem fetch_versioned_fallback:
  assumes "http E (url_of [str_int eid, ''Version.json'']) = Body (JObj vdoc)"
    and "http E (url_of [str_int eid, ''Lookup.json'']) = ErrorStatus m
         \<or> (\<exists>l. http E (url_of [str_int eid, ''Lookup.json'']) = Body l)
            \<and> http E (url_of [str_int eid, ''Election.json'']) = ErrorStatus m"
    and "http E (url_of [str_int eid, py_str E (dict_get vdoc ''Version'' JNull), ''Lookupdata.json''])
           = Body lookup"
    and "http E (url_of [str_int eid, py_str E (dict_get vdoc ''Version'' JNull), ''Electiondata.json''])
           = Body election"
  shows "fetch_lookup_election E eid = Inr (lookup, election, dict_get vdoc ''Version'' JNull)"
proof -
  note ok = get_json_Body [OF assms(1)] get_json_Body [OF assms(3)] get_json_Body [OF assms(4)]
  from assms(2) show ?thesis
  proof
    assume "http E (url_of [str_int eid, ''Lookup.json'']) = ErrorStatus m"
    then have "get_json E (url_of [str_int eid, ''Lookup.json'']) = Inl (HTTPError m)"
      by (rule get_json_ErrorStatus)
    then show ?thesis
      by (simp add: fetch_unfold ok)
  next
    assume "(\<exists>l. http E (url_of [str_int eid, ''Lookup.json'']) = Body l)
            \<and> http E (url_of [str_int eid, ''Election.json'']) = ErrorStatus m"
    then obtain l where "get_json E (url_of [str_int eid, ''Lookup.json'']) = Inr l"
      and "get_json E (url_of [str_int eid, ''Election.json'']) = Inl (HTTPError m)"
      by (auto simp: get_json_def)
    then show ?thesis
      by (simp add: fetch_unfold ok)
  qed
qed

text \<open>C7 on the example web, where only the versioned addresses of election 97 answer.\<close>

theorem fetch_versioned_fallback_witness:
  "fetch_lookup_election (example_env\<lparr>http := example_web\<rparr>) 97 =
     Inr (JObj [(''townIds'', JObj [(''5'', JStr ''Hartford'')])],
          JObj [(''townVotes'', JObj [])],
          JInt 12)"
proof -
  let ?E = "example_env\<lparr>http := example_web\<rparr>"
  have v: "http ?E (url_of [str_int 97, ''Version.json'']) = Body (JObj [(''Version'', JInt 12)])"
    by (simp add: url_of_def BASE_def str_int_97 example_web_def)
  have ver: "py_str ?E (dict_get [(''Version'', JInt 12)] ''Version'' JNull) = ''12''"
    by (simp add: dict_get_def str_int_12)
  have l: "http ?E (url_of [str_int 97, ''Lookup.json''])
      = ErrorStatus (''404 Client Error: Not Found for url: '' @ url_of [str_int 97, ''Lookup.json''])"
    by (simp add: url_of_def BASE_def str_int_97 example_web_def)
  have vl: "http ?E (url_of [str_int 97, py_str ?E (dict_get [(''Version'', JInt 12)] ''Version'' JNull),
        ''Lookupdata.json'']) = Body (JObj [(''townIds'', JObj [(''5'', JStr ''Hartford'')])])"
    unfolding ver by (simp add: url_of_def BASE_def str_int_97 example_web_def)
  have ve: "http ?E (url_of [str_int 97, py_str ?E (dict_get [(''Version'', JInt 12)] ''Version'' JNull),
        ''Electiondata.json'']) = Body (JObj [(''townVotes'', JObj [])])"
    unfolding ver by (simp add: url_of_def BASE_def str_int_97 example_web_def)
  from fetch_versioned_fallback [OF v disjI1 [OF l] vl ve] show ?thesis
    by (simp add: dict_get_def)
qed

lemma fetch_Inl_wrapped:
  "fetch_lookup_election E eid = Inl x \<Longrightarrow> \<exists>cause. x = could_not_fetch eid cause"
  by (auto simp: fetch_unfold split: sum.splits if_splits)

lemma main_fetch_failure:
  "fetch_lookup_election E ELECTION_ID = Inl x \<Longrightarrow> main E D = (Some x, D)"
  by (simp add: main_def)

text \<open>
  C8. A failure to fetch the version marker (of any kind), a version marker that is not a
  JSON object, a failure of the unversioned fetch that is not an HTTP error status (no
  connection, a body that is not JSON), and a failure of the versioned retry each make
  \<^verbatim>\<open>fetch_lookup_election\<close> raise one \<^verbatim>\<open>RuntimeError\<close> whose message is
  \<^verbatim>\<open>Could not fetch election\<close>, the election identifier, a colon and the text of the cause;
  whatever it raises is such an error; and when it raises, \<^verbatim>\<open>main\<close> ends with that error and
  the spreadsheet service is as it was: no table has been built or written.
\<close>

theorem fetch_failure_is_fatal:
  "(get_json E (url_of [str_int eid, ''Version.json'']) = Inl e
      \<longrightarrow> fetch_lookup_election E eid = Inl (could_not_fetch eid e))
   \<and> (get_json E (url_of [str_int eid, ''Version.json'']) = Inr v \<and> \<not> is_dict v
      \<longrightarrow> fetch_lookup_election E eid = Inl (could_not_fetch eid (no_attribute v ''get'')))
   \<and> (get_json E (url_of [str_int eid, ''Version.json'']) = Inr (JObj vdoc)
       \<and> \<not> is_http_error e
       \<and> (get_json E (url_of [str_int eid, ''Lookup.json'']) = Inl e
          \<or> (\<exists>l. get_json E (url_of [str_int eid, ''Lookup.json'']) = Inr l)
             \<and> get_json E (url_of [str_int eid, ''Election.json'']) = Inl e)
      \<longrightarrow> fetch_lookup_election E eid = Inl (could_not_fetch eid e))
   \<and> (get_json E (url_of [str_int eid, ''Version.json'']) = Inr (JObj vdoc)
       \<and> is_http_error e0
       \<and> (get_json E (url_of [str_int eid, ''Lookup.json'']) = Inl e0
          \<or> (\<exists>l. get_json E (url_of [str_int eid, ''Lookup.json'']) = Inr l)
             \<and> get_json E (url_of [str_int eid, ''Election.json'']) = Inl e0)
       \<and> (get_json E (url_of [str_int eid, py_str E (dict_get vdoc ''Version'' JNull), ''Lookupdata.json''])
             = Inl e
          \<or> (\<exists>l. get_json E (url_of [str_int eid, py_str E (dict_get vdoc ''Version'' JNull), ''Lookupdata.json''])
                 = Inr l)
             \<and> get_json E (url_of [str_int eid, py_str E (dict_get vdoc ''Version'' JNull), ''Electiondata.json''])
                 = Inl e)
      \<longrightarrow> fetch_lookup_election E eid = Inl (could_not_fetch eid e))
   \<and> (fetch_lookup_election E eid = Inl x \<longrightarrow> (\<exists>cause. x = could_not_fetch eid cause))
   \<and> (fetch_lookup_election E ELECTION_ID = Inl x \<longrightarrow> main E D = (Some x, D))"
proof (intro conjI impI)
  assume "get_json E (url_of [str_int eid, ''Version.json'']) = Inl e"
  then show "fetch_lookup_election E eid = Inl (could_not_fetch eid e)"
    by (simp add: fetch_unfold)
next
  assume "get_json E (url_of [str_int eid, ''Version.json'']) = Inr v \<and> \<not> is_dict v"
  then show "fetch_lookup_election E eid = Inl (could_not_fetch eid (no_attribute v ''get''))"
    by (cases v) (simp_all add: fetch_unfold)
next
  assume "get_json E (url_of [str_int eid, ''Version.json'']) = Inr (JObj vdoc)
       \<and> \<not> is_http_error e
       \<and> (get_json E (url_of [str_int eid, ''Lookup.json'']) = Inl e
          \<or> (\<exists>l. get_json E (url_of [str_int eid, ''Lookup.json'']) = Inr l)
             \<and> get_json E (url_of [str_int eid, ''Election.json'']) = Inl e)"
  then show "fetch_lookup_election E eid = Inl (could_not_fetch eid e)"
    by (auto simp: fetch_unfold)
next
  assume "get_json E (url_of [str_int eid, ''Version.json'']) = Inr (JObj vdoc)
       \<and> is_http_error e0
       \<and> (get_json E (url_of [str_int eid, ''Lookup.json'']) = Inl e0
          \<or> (\<exists>l. get_json E (url_of [str_int eid, ''Lookup.json'']) = Inr l)
             \<and> get_json E (url_of [str_int eid, ''Election.json'']) = Inl e0)
       \<and> (get_json E (url_of [str_int eid, py_str E (dict_get vdoc ''Version'' JNull), ''Lookupdata.json''])
             = Inl e
          \<or> (\<exists>l. get_json E (url_of [str_int eid, py_str E (dict_get vdoc ''Version'' JNull), ''Lookupdata.json''])
                 = Inr l)
             \<and> get_json E (url_of [str_int eid, py_str E (dict_get vdoc ''Version'' JNull), ''Electiondata.json''])
                 = Inl e)"
  then show "fetch_lookup_election E eid = Inl (could_not_fetch eid e)"
    by (auto simp: fetch_unfold)
next
  assume "fetch_lookup_election E eid = Inl x"
  then show "\<exists>cause. x = could_not_fetch eid cause"
    by (rule fetch_Inl_wrapped)
next
  assume "fetch_lookup_election E ELECTION_ID = Inl x"
  then show "main E D = (Some x, D)"
    by (rule main_fetch_failure)
qed

text \<open>C8 in the example environment, where no address can be reached.\<close>

theorem fetch_failure_is_fatal_witness:
  "get_json example_env (url_of [str_int 97, ''Version.json'']) = Inl (RequestError ''no route to host'')
   \<and> fetch_lookup_election example_env 97
       = Inl (RuntimeError ''Could not fetch election 97: no route to host'')
   \<and> main example_env [(''municipal-elections-2025-angela'', [(''Results_EN'', example_results)])]
       = (Some (RuntimeError ''Could not fetch election 97: no route to host''),
          [(''municipal-elections-2025-angela'', [(''Results_EN'', example_results)])])"
proof -
  let ?D = "[(''municipal-elections-2025-angela'', [(''Results_EN'', example_results)])]"
  have g: "get_json example_env (url_of [str_int 97, ''Version.json'']) = Inl (RequestError ''no route to host'')"
    by (simp add: get_json_def example_env_def)
  note t = fetch_failure_is_fatal [where E = example_env and eid = 97 and D = ?D
      and e = "RequestError ''no route to host''"
      and x = "RuntimeError ''Could not fetch election 97: no route to host''"]
  from t g have f: "fetch_lookup_election example_env 97 = Inl (could_not_fetch 97 (RequestError ''no route to host''))"
    by blast
  then have f': "fetch_lookup_election example_env ELECTION_ID
      = Inl (RuntimeError ''Could not fetch election 97: no route to host'')"
    by (simp add: could_not_fetch_def str_int_97 ELECTION_ID_def)
  with t have "main example_env ?D = (Some (RuntimeError ''Could not fetch election 97: no route to host''), ?D)"
    by blast
  with g f' show ?thesis
    by (simp add: ELECTION_ID_def)
qed

section \<open>The results and turnout tables of well-shaped documents\<close>

lemma length_to_numeric [simp]: "length (to_numeric E col) = length col"
  by (simp add: to_numeric_def)

lemma to_numeric_Nil [simp]: "to_numeric E [] = []"
  by (simp add: to_numeric_def)

lemma collect_Inr:
  "(\<And>x. x \<in> set xs \<Longrightarrow> f x = Inr (g x)) \<Longrightarrow> collect f xs = Inr (concat (map g xs))"
  by (induction xs) simp_all

lemma dict_get_resolve: "dict_get d k (JStr '''') = resolve d k"
  by (simp add: dict_get_def resolve_def)

lemma dict_get_record:
  "records d \<Longrightarrow> dict_get d k (JObj []) = JObj (record_of d k)"
proof (cases "map_of d k")
  case None
  then show ?thesis by (simp add: dict_get_def record_of_def)
next
  case (Some r)
  assume "records d"
  with Some have "is_dict r"
    by (auto simp: records_def list_all_iff dest!: map_of_SomeD)
  then obtain x where "r = JObj x" by (cases r) simp_all
  with Some show ?thesis by (simp add: dict_get_def record_of_def)
qed

lemma result_row_shaped:
  assumes "records parties" and "records candidates" and "is_dict vals"
  shows "result_row E (JObj towns) (JObj parties) (JObj candidates) offices tid oid cid vals =
    Inr (tally_row E towns offices parties candidates
           \<lparr>t_town = tid, t_office = oid, t_candidate = cid, t_vals = vals\<rparr>)"
proof -
  from assms(3) obtain v where v: "vals = JObj v" by (cases vals) simp_all
  show ?thesis
    by (simp add: result_row_def tally_row_def party_name_def v
        dict_get_record [OF assms(1)] dict_get_record [OF assms(2)] dict_get_resolve)
qed

lemma entry_rows_shaped:
  assumes "records parties" and "records candidates" and "entry_shaped entry"
  shows "and_then (py_items entry) (collect (\<lambda>(cid, vals).
             and_then (result_row E (JObj towns) (JObj parties) (JObj candidates) offices tid oid cid vals)
               (\<lambda>row. Inr [row]))) =
         Inr (map (tally_row E towns offices parties candidates) (entry_tallies tid oid entry))"
proof -
  from assms(3) obtain d where d: "entry = JObj d" and r: "records d"
    by (cases entry) (simp_all add: entry_shaped_def)
  have "collect (\<lambda>(cid, vals).
             and_then (result_row E (JObj towns) (JObj parties) (JObj candidates) offices tid oid cid vals)
               (\<lambda>row. Inr [row])) d =
        Inr (concat (map (\<lambda>cv. [tally_row E towns offices parties candidates
           \<lparr>t_town = tid, t_office = oid, t_candidate = fst cv, t_vals = snd cv\<rparr>]) d))"
  proof (rule collect_Inr)
    fix x assume "x \<in> set d"
    with r have "is_dict (snd x)" by (simp add: records_def list_all_iff)
    then show "(case x of (cid, vals) \<Rightarrow>
             and_then (result_row E (JObj towns) (JObj parties) (JObj candidates) offices tid oid cid vals)
               (\<lambda>row. Inr [row])) =
        Inr [tally_row E towns offices parties candidates
           \<lparr>t_town = tid, t_office = oid, t_candidate = fst x, t_vals = snd x\<rparr>]"
      by (cases x) (simp add: result_row_shaped [OF assms(1,2)])
  qed
  then show ?thesis
    by (simp add: d entry_tallies_def map_concat comp_def)
qed

lemma office_rows_shaped:
  assumes "records parties" and "records candidates" and "office_shaped oc"
  shows "(case oc of (oid, cands) \<Rightarrow>
           and_then (py_iter cands) (collect (\<lambda>entry.
             and_then (py_items entry) (collect (\<lambda>(cid, vals).
               and_then (result_row E (JObj towns) (JObj parties) (JObj candidates) offices tid oid cid vals)
                 (\<lambda>row. Inr [row])))))) =
         Inr (map (tally_row E towns offices parties candidates) (office_tallies tid oc))"
proof -
  obtain oid cands where oc: "oc = (oid, cands)" by (cases oc)
  from assms(3) oc obtain es where es: "cands = JArr es" and sh: "list_all entry_shaped es"
    by (cases cands) (simp_all add: office_shaped_def)
  have "collect (\<lambda>entry.
             and_then (py_items entry) (collect (\<lambda>(cid, vals).
               and_then (result_row E (JObj towns) (JObj parties) (JObj candidates) offices tid oid cid vals)
                 (\<lambda>row. Inr [row])))) es =
        Inr (concat (map (\<lambda>entry. map (tally_row E towns offices parties candidates)
               (entry_tallies tid oid entry)) es))"
  proof (rule collect_Inr)
    fix x assume "x \<in> set es"
    with sh have "entry_shaped x" by (simp add: list_all_iff)
    then show "and_then (py_items x) (collect (\<lambda>(cid, vals).
               and_then (result_row E (JObj towns) (JObj parties) (JObj candidates) offices tid oid cid vals)
                 (\<lambda>row. Inr [row]))) =
        Inr (map (tally_row E towns offices parties candidates) (entry_tallies tid oid x))"
      by (rule entry_rows_shaped [OF assms(1,2)])
  qed
  then show ?thesis
    by (simp add: oc es office_tallies_def map_concat comp_def)
qed

lemma town_rows_shaped:
  assumes "records parties" and "records candidates" and "town_shaped tc"
  shows "(case tc of (tid, contests) \<Rightarrow>
           and_then (py_items contests) (collect (\<lambda>(oid, cands).
             and_then (py_iter cands) (collect (\<lambda>entry.
               and_then (py_items entry) (collect (\<lambda>(cid, vals).
                 and_then (result_row E (JObj towns) (JObj parties) (JObj candidates) offices tid oid cid vals)
                   (\<lambda>row. Inr [row])))))))) =
         Inr (map (tally_row E towns offices parties candidates) (town_tallies tc))"
proof -
  obtain tid contests where tc: "tc = (tid, contests)" by (cases tc)
  from assms(3) tc obtain cs where cs: "contests = JObj cs" and sh: "list_all office_shaped cs"
    by (cases contests) (simp_all add: town_shaped_def)
  have "collect (\<lambda>(oid, cands).
             and_then (py_iter cands) (collect (\<lambda>entry.
               and_then (py_items entry) (collect (\<lambda>(cid, vals).
                 and_then (result_row E (JObj towns) (JObj parties) (JObj candidates) offices tid oid cid vals)
                   (\<lambda>row. Inr [row])))))) cs =
        Inr (concat (map (\<lambda>oc. map (tally_row E towns offices parties candidates)
               (office_tallies tid oc)) cs))"
  proof (rule collect_Inr)
    fix x assume "x \<in> set cs"
    with sh have "office_shaped x" by (simp add: list_all_iff)
    then show "(case x of (oid, cands) \<Rightarrow>
             and_then (py_iter cands) (collect (\<lambda>entry.
               and_then (py_items entry) (collect (\<lambda>(cid, vals).
                 and_then (result_row E (JObj towns) (JObj parties) (JObj candidates) offices tid oid cid vals)
                   (\<lambda>row. Inr [row])))))) =
        Inr (map (tally_row E towns offices parties candidates) (office_tallies tid x))"
      by (rule office_rows_shaped [OF assms(1,2)])
  qed
  then show ?thesis
    by (simp add: tc cs town_tallies_def map_concat comp_def)
qed

lemma result_rows_shaped:
  assumes "records parties" and "records candidates" and "votes_shaped tv"
  shows "result_rows E (JObj towns) (JObj parties) (JObj candidates) offices tv =
         Inr (map (tally_row E towns offices parties candidates) (tallies tv))"
proof -
  have "result_rows E (JObj towns) (JObj parties) (JObj candidates) offices tv =
        Inr (concat (map (\<lambda>tc. map (tally_row E towns offices parties candidates) (town_tallies tc)) tv))"
    unfolding result_rows_def
  proof (rule collect_Inr)
    fix x assume "x \<in> set tv"
    with assms(3) have "town_shaped x" by (simp add: votes_shaped_def list_all_iff)
    then show "(case x of (tid, contests) \<Rightarrow>
           and_then (py_items contests) (collect (\<lambda>(oid, cands).
             and_then (py_iter cands) (collect (\<lambda>entry.
               and_then (py_items entry) (collect (\<lambda>(cid, vals).
                 and_then (result_row E (JObj towns) (JObj parties) (JObj candidates) offices tid oid cid vals)
                   (\<lambda>row. Inr [row])))))))) =
         Inr (map (tally_row E towns offices parties candidates) (town_tallies x))"
      by (rule town_rows_shaped [OF assms(1,2)])
  qed
  then show ?thesis
    by (simp add: tallies_def map_concat comp_def)
qed

lemma DataFrame_rows_tally:
  "ts \<noteq> [] \<Longrightarrow>
   DataFrame_rows (map (tally_row E towns offices parties candidates) ts) =
     \<lparr>nrows = length ts,
      columns =
        [(''town_name'', map (\<lambda>t. Obj (resolve towns (t_town t))) ts),
         (''office_name'', map (\<lambda>t. Obj (resolve offices (t_office t))) ts),
         (''candidate_name'', map (\<lambda>t. Obj (resolve (record_of candidates (t_candidate t)) ''NM'')) ts),
         (''party'', map (\<lambda>t. Obj (party_name E parties candidates (t_candidate t))) ts),
         (''votes'', map (\<lambda>t. Obj (resolve (pairs (t_vals t)) ''V'')) ts),
         (''percent'', map (\<lambda>t. Obj (resolve (pairs (t_vals t)) ''TO'')) ts),
         (''town_id'', map (\<lambda>t. Obj (JStr (t_town t))) ts),
         (''office_id'', map (\<lambda>t. Obj (JStr (t_office t))) ts),
         (''candidate_id'', map (\<lambda>t. Obj (JStr (t_candidate t))) ts)]\<rparr>"
  by (cases ts) (simp_all add: DataFrame_rows_def tally_row_def)

lemma parse_results_spec_example:
  "parse_results E spec_lookup spec_election =
     Inr \<lparr>nrows = 1,
          columns =
            [(''town_name'', [Obj (JStr ''Hartford'')]),
             (''office_name'', [Obj (JStr ''Mayor'')]),
             (''candidate_name'', [Obj (JStr ''Jane Doe'')]),
             (''party'', [Obj (JStr ''Democratic Party'')]),
             (''votes'', [Num 1234]),
             (''percent'', [Obj (JStr ''55%'')]),
             (''town_id'', [Obj (JStr ''5'')]),
             (''office_id'', [Obj (JStr ''10'')]),
             (''candidate_id'', [Obj (JStr ''100'')])]\<rparr>"
  by (simp add: parse_results_def spec_lookup_def spec_election_def dict_get_def
      build_office_map_def result_rows_def result_row_def DataFrame_rows_def df_empty_def
      getitem_def setitem_def clean_numeric_def to_numeric_def int_literal_def is_digit_def
      digits_value_def digit_value_def)


lemma lookup_docD:
  assumes "lookup_doc lookup towns parties candidates office_list"
  shows "py_get lookup ''townIds'' (JObj []) = Inr (JObj towns)"
    and "py_get lookup ''partyIds'' (JObj []) = Inr (JObj parties)"
    and "py_get lookup ''candidateIds'' (JObj []) = Inr (JObj candidates)"
    and "py_get lookup ''officeList'' (JArr []) = Inr (JArr office_list)"
    and "records parties" and "records candidates"
    and "\<forall>kv \<in> set (office_entries office_list). is_dict (snd kv)"
  using assms by (cases lookup; simp add: lookup_doc_def records_def list_all_iff)+

lemma votes_docD:
  assumes "votes_doc election town_votes"
  shows "py_get election ''townVotes'' (JObj []) = Inr (JObj town_votes)"
    and "votes_shaped town_votes"
  using assms by (cases election; simp add: votes_doc_def)+

lemma parse_results_shaped:
  assumes "lookup_doc lookup towns parties candidates office_list"
    and "votes_doc election town_votes"
    and "build_office_map (JArr office_list) = Inr offices"
  shows "parse_results E lookup election =
    Inr (if tallies town_votes = [] then \<lparr>nrows = 0, columns = []\<rparr>
         else
     \<lparr>nrows = length (tallies town_votes),
      columns =
        [(''town_name'', map (\<lambda>t. Obj (resolve towns (t_town t))) (tallies town_votes)),
         (''office_name'', map (\<lambda>t. Obj (resolve offices (t_office t))) (tallies town_votes)),
         (''candidate_name'',
            map (\<lambda>t. Obj (resolve (record_of candidates (t_candidate t)) ''NM'')) (tallies town_votes)),
         (''party'', map (\<lambda>t. Obj (party_name E parties candidates (t_candidate t))) (tallies town_votes)),
         (''votes'',
            to_numeric E (map (\<lambda>t. cleaned E (resolve (pairs (t_vals t)) ''V'')) (tallies town_votes))),
         (''percent'', map (\<lambda>t. Obj (resolve (pairs (t_vals t)) ''TO'')) (tallies town_votes)),
         (''town_id'', map (\<lambda>t. Obj (JStr (t_town t))) (tallies town_votes)),
         (''office_id'', map (\<lambda>t. Obj (JStr (t_office t))) (tallies town_votes)),
         (''candidate_id'', map (\<lambda>t. Obj (JStr (t_candidate t))) (tallies town_votes))]\<rparr>)"
proof -
  note l = lookup_docD [OF assms(1)] and v = votes_docD [OF assms(2)]
  have rows: "result_rows E (JObj towns) (JObj parties) (JObj candidates) offices town_votes =
      Inr (map (tally_row E towns offices parties candidates) (tallies town_votes))"
    using l(5) l(6) v(2) by (rule result_rows_shaped)
  show ?thesis
  proof (cases "tallies town_votes = []")
    case True
    then show ?thesis
      by (simp add: parse_results_def l(1-4) v(1) assms(3) rows DataFrame_rows_def df_empty_def)
  next
    case False
    then show ?thesis
      by (simp add: parse_results_def l(1-4) v(1) assms(3) rows DataFrame_rows_tally
          df_empty_def getitem_def setitem_def clean_numeric_def cleaned_def comp_def)
  qed
qed

lemma length_tallies_single:
  "list_all (\<lambda>entry. length (pairs entry) = 1) (vote_entries tv) \<Longrightarrow>
   length (tallies tv) = length (vote_entries tv)"
proof -
  have e: "length (concat (map (entry_tallies tid oid) es)) = length es"
    if "list_all (\<lambda>entry. length (pairs entry) = 1) es" for tid oid es
    using that by (induction es) (simp_all add: entry_tallies_def)
  have o: "length (concat (map (office_tallies tid) cs)) = length (concat (map (\<lambda>oc. elements (snd oc)) cs))"
    if "list_all (\<lambda>entry. length (pairs entry) = 1) (concat (map (\<lambda>oc. elements (snd oc)) cs))" for tid cs
    using that by (induction cs) (simp_all add: office_tallies_def e)
  assume "list_all (\<lambda>entry. length (pairs entry) = 1) (vote_entries tv)"
  then show ?thesis
    unfolding tallies_def vote_entries_def
    by (induction tv) (simp_all add: town_tallies_def o)
qed

lemma turnout_row_shaped:
  assumes "records status" and "is_dict d"
  shows "turnout_row (JObj status) tid d = Inr (town_row status (tid, d))"
proof -
  from assms(2) obtain x where x: "d = JObj x" by (cases d) simp_all
  show ?thesis
    by (simp add: turnout_row_def town_row_def x dict_get_record [OF assms(1)] dict_get_resolve)
qed

lemma DataFrame_rows_town:
  "vt \<noteq> [] \<Longrightarrow>
   DataFrame_rows (map (town_row status) vt) =
     \<lparr>nrows = length vt,
      columns =
        [(''town_id'', map (\<lambda>td. Obj (JStr (fst td))) vt),
         (''town_name'', map (\<lambda>td. Obj (resolve (pairs (snd td)) ''NM'')) vt),
         (''precincts_reported'', map (\<lambda>td. Obj (resolve (record_of status (fst td)) ''PR'')) vt),
         (''electors'', map (\<lambda>td. Obj (resolve (pairs (snd td)) ''EV'')) vt),
         (''votes_cast'', map (\<lambda>td. Obj (resolve (pairs (snd td)) ''VV'')) vt),
         (''turnout_percent'', map (\<lambda>td. Obj (resolve (pairs (snd td)) ''TO'')) vt)]\<rparr>"
  by (cases vt) (simp_all add: DataFrame_rows_def town_row_def)

lemma turnout_docD:
  assumes "turnout_doc election turnout status"
  shows "py_get election ''voterTurnout'' (JObj []) = Inr (JObj turnout)"
    and "py_get election ''townStatus'' (JObj []) = Inr (JObj status)"
    and "records turnout" and "records status"
  using assms by (cases election; simp add: turnout_doc_def)+

lemma parse_turnout_shaped:
  assumes "turnout_doc election turnout status"
  shows "parse_turnout E election =
    Inr (if turnout = [] then \<lparr>nrows = 0, columns = []\<rparr>
         else
     \<lparr>nrows = length turnout,
      columns =
        [(''town_id'', map (\<lambda>td. Obj (JStr (fst td))) turnout),
         (''town_name'', map (\<lambda>td. Obj (resolve (pairs (snd td)) ''NM'')) turnout),
         (''precincts_reported'', map (\<lambda>td. Obj (resolve (record_of status (fst td)) ''PR'')) turnout),
         (''electors'', to_numeric E (map (\<lambda>td. cleaned E (resolve (pairs (snd td)) ''EV'')) turnout)),
         (''votes_cast'', to_numeric E (map (\<lambda>td. cleaned E (resolve (pairs (snd td)) ''VV'')) turnout)),
         (''turnout_percent'', map (\<lambda>td. Obj (resolve (pairs (snd td)) ''TO'')) turnout)]\<rparr>)"
proof -
  note t = turnout_docD [OF assms]
  have "collect (\<lambda>(tid, d). and_then (turnout_row (JObj status) tid d) (\<lambda>row. Inr [row])) turnout =
      Inr (concat (map (\<lambda>td. [town_row status td]) turnout))"
  proof (rule collect_Inr)
    fix x assume "x \<in> set turnout"
    with t(3) have "is_dict (snd x)" by (simp add: records_def list_all_iff)
    then show "(case x of (tid, d) \<Rightarrow> and_then (turnout_row (JObj status) tid d) (\<lambda>row. Inr [row])) =
        Inr [town_row status x]"
      by (cases x) (simp add: turnout_row_shaped [OF t(4)])
  qed
  then have rows: "collect (\<lambda>(tid, d). and_then (turnout_row (JObj status) tid d) (\<lambda>row. Inr [row])) turnout =
      Inr (map (town_row status) turnout)"
    by simp
  show ?thesis
  proof (cases "turnout = []")
    case True
    then show ?thesis
      by (simp add: parse_turnout_def t(1,2) DataFrame_rows_def df_empty_def)
  next
    case False
    then show ?thesis
      by (simp add: parse_turnout_def t(1,2) rows DataFrame_rows_town
          df_empty_def getitem_def setitem_def clean_numeric_def cleaned_def comp_def)
  qed
qed

lemma count_one: "distinct ks \<Longrightarrow> k \<in> set ks \<Longrightarrow> length (filter (\<lambda>x. x = k) ks) = 1"
  by (induction ks) (auto simp: filter_empty_conv)

lemma parse_turnout_cells:
  assumes "turnout_doc election turnout status"
  shows "\<exists>df. parse_turnout E election = Inr df
    \<and> nrows df = length turnout
    \<and> cells df ''town_id'' = map (\<lambda>td. Obj (JStr (fst td))) turnout
    \<and> cells df ''town_name'' = map (\<lambda>td. Obj (resolve (pairs (snd td)) ''NM'')) turnout
    \<and> cells df ''precincts_reported'' = map (\<lambda>td. Obj (resolve (record_of status (fst td)) ''PR'')) turnout
    \<and> cells df ''electors'' = to_numeric E (map (\<lambda>td. cleaned E (resolve (pairs (snd td)) ''EV'')) turnout)
    \<and> cells df ''votes_cast'' = to_numeric E (map (\<lambda>td. cleaned E (resolve (pairs (snd td)) ''VV'')) turnout)
    \<and> cells df ''turnout_percent'' = map (\<lambda>td. Obj (resolve (pairs (snd td)) ''TO'')) turnout"
  unfolding parse_turnout_shaped [OF assms]
  by (cases "turnout = []") (simp_all add: cells_def)

lemma parse_results_cells:
  assumes "lookup_doc lookup towns parties candidates office_list"
    and "votes_doc election town_votes"
    and "build_office_map (JArr office_list) = Inr offices"
  shows "\<exists>df. parse_results E lookup election = Inr df
    \<and> nrows df = length (tallies town_votes)
    \<and> cells df ''town_name'' = map (\<lambda>t. Obj (resolve towns (t_town t))) (tallies town_votes)
    \<and> cells df ''office_name'' = map (\<lambda>t. Obj (resolve offices (t_office t))) (tallies town_votes)
    \<and> cells df ''candidate_name''
        = map (\<lambda>t. Obj (resolve (record_of candidates (t_candidate t)) ''NM'')) (tallies town_votes)
    \<and> cells df ''party''
        = map (\<lambda>t. Obj (party_name E parties candidates (t_candidate t))) (tallies town_votes)
    \<and> cells df ''votes''
        = to_numeric E (map (\<lambda>t. cleaned E (resolve (pairs (t_vals t)) ''V'')) (tallies town_votes))
    \<and> cells df ''percent'' = map (\<lambda>t. Obj (resolve (pairs (t_vals t)) ''TO'')) (tallies town_votes)
    \<and> cells df ''town_id'' = map (\<lambda>t. Obj (JStr (t_town t))) (tallies town_votes)
    \<and> cells df ''office_id'' = map (\<lambda>t. Obj (JStr (t_office t))) (tallies town_votes)
    \<and> cells df ''candidate_id'' = map (\<lambda>t. Obj (JStr (t_candidate t))) (tallies town_votes)"
  unfolding parse_results_shaped [OF assms]
  by (cases "tallies town_votes = []") (simp_all add: cells_def)

lemma office_map_exists:
  assumes "lookup_doc lookup towns parties candidates office_list"
  shows "\<exists>offices. build_office_map (JArr office_list) = Inr offices"
  using build_office_map_fold [OF lookup_docD(7) [OF assms]] by simp

text \<open>
  C2. For an election document whose \<^verbatim>\<open>voterTurnout\<close> and \<^verbatim>\<open>townStatus\<close> are mappings of
  records, \<^verbatim>\<open>parse_turnout\<close> returns a table with one row for each town of \<^verbatim>\<open>voterTurnout\<close>,
  in its order, so that a town that is present has exactly one row (the keys of a dict
  being distinct); the precincts-reported value of the row is what \<^verbatim>\<open>townStatus\<close> has under
  \<^verbatim>\<open>PR\<close> for the town, not what the turnout record has, and it is the empty string for a
  town that \<^verbatim>\<open>townStatus\<close> does not have, whose row is still there.
\<close>

theorem parse_turnout_rows:
  assumes "turnout_doc election turnout status"
  shows "\<exists>df. parse_turnout E election = Inr df
    \<and> nrows df = length turnout
    \<and> cells df ''town_id'' = map (\<lambda>td. Obj (JStr (fst td))) turnout
    \<and> cells df ''precincts_reported'' = map (\<lambda>td. Obj (resolve (record_of status (fst td)) ''PR'')) turnout
    \<and> (\<forall>tid. distinct (map fst turnout) \<and> tid \<in> set (map fst turnout)
          \<longrightarrow> length (filter (\<lambda>c. c = Obj (JStr tid)) (cells df ''town_id'')) = 1)
    \<and> (\<forall>i. i < length turnout \<and> map_of status (fst (turnout ! i)) = None
          \<longrightarrow> cells df ''precincts_reported'' ! i = Obj (JStr ''''))"
proof -
  from parse_turnout_cells [OF assms, of E] obtain df
    where run: "parse_turnout E election = Inr df"
      and n: "nrows df = length turnout"
      and ids: "cells df ''town_id'' = map (\<lambda>td. Obj (JStr (fst td))) turnout"
      and pr: "cells df ''precincts_reported''
          = map (\<lambda>td. Obj (resolve (record_of status (fst td)) ''PR'')) turnout"
    by (elim exE conjE)
  have one: "length (filter (\<lambda>c. c = Obj (JStr tid)) (cells df ''town_id'')) = 1"
    if h: "distinct (map fst turnout) \<and> tid \<in> set (map fst turnout)" for tid
  proof -
    have "filter (\<lambda>c. c = Obj (JStr tid)) (map (\<lambda>td. Obj (JStr (fst td))) turnout)
        = map (\<lambda>k. Obj (JStr k)) (filter (\<lambda>k. k = tid) (map fst turnout))"
      by (induction turnout) simp_all
    moreover have "length (filter (\<lambda>k. k = tid) (map fst turnout)) = 1"
      using h count_one [of "map fst turnout" tid] by blast
    ultimately show ?thesis
      unfolding ids by (simp only: length_map)
  qed
  have miss: "cells df ''precincts_reported'' ! i = Obj (JStr '''')"
    if "i < length turnout \<and> map_of status (fst (turnout ! i)) = None" for i
    unfolding pr using that by (simp add: record_of_def resolve_def)
  show ?thesis
  proof (intro exI [of _ df] conjI allI impI)
    show "parse_turnout E election = Inr df" by (rule run)
    show "nrows df = length turnout" by (rule n)
    show "cells df ''town_id'' = map (\<lambda>td. Obj (JStr (fst td))) turnout" by (rule ids)
    show "cells df ''precincts_reported''
          = map (\<lambda>td. Obj (resolve (record_of status (fst td)) ''PR'')) turnout" by (rule pr)
    show "length (filter (\<lambda>c. c = Obj (JStr tid)) (cells df ''town_id'')) = 1"
      if "distinct (map fst turnout) \<and> tid \<in> set (map fst turnout)" for tid
      using that by (rule one)
    show "cells df ''precincts_reported'' ! i = Obj (JStr '''')"
      if "i < length turnout \<and> map_of status (fst (turnout ! i)) = None" for i
      using that by (rule miss)
  qed
qed








text \<open>
  C1. For a lookup document and an election document of the shape the specification
  describes, \<^verbatim>\<open>parse_results\<close> returns a table with exactly one row for each candidate
  tally of \<^verbatim>\<open>townVotes\<close>, in the order of the towns, of the offices under each town and of
  the entries of each candidate sequence (one row for each entry, when every entry is a
  single-entry mapping). In the row of a tally the town name is resolved in \<^verbatim>\<open>townIds\<close>,
  the office name in the merged office map, the candidate name and the party identifier
  in \<^verbatim>\<open>candidateIds\<close>, and the party name in \<^verbatim>\<open>partyIds\<close> under the candidate's party
  identifier; every miss gives the empty string and nothing is raised. For the worked
  example of the specification the table has the one row Hartford, Mayor, Jane Doe,
  Democratic Party, the number 1234 and \<^verbatim>\<open>55%\<close>.
\<close>

theorem parse_results_rows:
  "(lookup_doc lookup towns parties candidates office_list \<and> votes_doc election town_votes
     \<longrightarrow> (\<exists>df offices. parse_results E lookup election = Inr df
           \<and> build_office_map (JArr office_list) = Inr offices
           \<and> nrows df = length (tallies town_votes)
           \<and> (list_all (\<lambda>entry. length (pairs entry) = 1) (vote_entries town_votes)
                \<longrightarrow> nrows df = length (vote_entries town_votes))
           \<and> cells df ''town_name'' = map (\<lambda>t. Obj (resolve towns (t_town t))) (tallies town_votes)
           \<and> cells df ''office_name'' = map (\<lambda>t. Obj (resolve offices (t_office t))) (tallies town_votes)
           \<and> cells df ''candidate_name''
               = map (\<lambda>t. Obj (resolve (record_of candidates (t_candidate t)) ''NM'')) (tallies town_votes)
           \<and> cells df ''party''
               = map (\<lambda>t. Obj (resolve (record_of parties
                        (py_str E (resolve (record_of candidates (t_candidate t)) ''P''))) ''NM''))
                   (tallies town_votes)
           \<and> cells df ''votes''
               = to_numeric E (map (\<lambda>t. cleaned E (resolve (pairs (t_vals t)) ''V'')) (tallies town_votes))
           \<and> cells df ''percent'' = map (\<lambda>t. Obj (resolve (pairs (t_vals t)) ''TO'')) (tallies town_votes)
           \<and> cells df ''town_id'' = map (\<lambda>t. Obj (JStr (t_town t))) (tallies town_votes)
           \<and> cells df ''office_id'' = map (\<lambda>t. Obj (JStr (t_office t))) (tallies town_votes)
           \<and> cells df ''candidate_id'' = map (\<lambda>t. Obj (JStr (t_candidate t))) (tallies town_votes)))
   \<and> parse_results E spec_lookup spec_election =
       Inr \<lparr>nrows = 1,
            columns =
              [(''town_name'', [Obj (JStr ''Hartford'')]),
               (''office_name'', [Obj (JStr ''Mayor'')]),
               (''candidate_name'', [Obj (JStr ''Jane Doe'')]),
               (''party'', [Obj (JStr ''Democratic Party'')]),
               (''votes'', [Num 1234]),
               (''percent'', [Obj (JStr ''55%'')]),
               (''town_id'', [Obj (JStr ''5'')]),
               (''office_id'', [Obj (JStr ''10'')]),
               (''candidate_id'', [Obj (JStr ''100'')])]\<rparr>"
proof (intro conjI impI)
  assume h: "lookup_doc lookup towns parties candidates office_list \<and> votes_doc election town_votes"
  then have l: "lookup_doc lookup towns parties candidates office_list"
    and v: "votes_doc election town_votes"
    by simp_all
  from office_map_exists [OF l] obtain offices
    where m: "build_office_map (JArr office_list) = Inr offices"
    by blast
  from parse_results_cells [OF l v m, of E] obtain df
    where run: "parse_results E lookup election = Inr df"
      and n: "nrows df = length (tallies town_votes)"
      and cols:
        "cells df ''town_name'' = map (\<lambda>t. Obj (resolve towns (t_town t))) (tallies town_votes)"
        "cells df ''office_name'' = map (\<lambda>t. Obj (resolve offices (t_office t))) (tallies town_votes)"
        "cells df ''candidate_name''
            = map (\<lambda>t. Obj (resolve (record_of candidates (t_candidate t)) ''NM'')) (tallies town_votes)"
        "cells df ''party''
            = map (\<lambda>t. Obj (party_name E parties candidates (t_candidate t))) (tallies town_votes)"
        "cells df ''votes''
            = to_numeric E (map (\<lambda>t. cleaned E (resolve (pairs (t_vals t)) ''V'')) (tallies town_votes))"
        "cells df ''percent'' = map (\<lambda>t. Obj (resolve (pairs (t_vals t)) ''TO'')) (tallies town_votes)"
        "cells df ''town_id'' = map (\<lambda>t. Obj (JStr (t_town t))) (tallies town_votes)"
        "cells df ''office_id'' = map (\<lambda>t. Obj (JStr (t_office t))) (tallies town_votes)"
        "cells df ''candidate_id'' = map (\<lambda>t. Obj (JStr (t_candidate t))) (tallies town_votes)"
    by (elim exE conjE)
  show "\<exists>df offices. parse_results E lookup election = Inr df
           \<and> build_office_map (JArr office_list) = Inr offices
           \<and> nrows df = length (tallies town_votes)
           \<and> (list_all (\<lambda>entry. length (pairs entry) = 1) (vote_entries town_votes)
                \<longrightarrow> nrows df = length (vote_entries town_votes))
           \<and> cells df ''town_name'' = map (\<lambda>t. Obj (resolve towns (t_town t))) (tallies town_votes)
           \<and> cells df ''office_name'' = map (\<lambda>t. Obj (resolve offices (t_office t))) (tallies town_votes)
           \<and> cells df ''candidate_name''
               = map (\<lambda>t. Obj (resolve (record_of candidates (t_candidate t)) ''NM'')) (tallies town_votes)
           \<and> cells df ''party''
               = map (\<lambda>t. Obj (resolve (record_of parties
                        (py_str E (resolve (record_of candidates (t_candidate t)) ''P''))) ''NM''))
                   (tallies town_votes)
           \<and> cells df ''votes''
               = to_numeric E (map (\<lambda>t. cleaned E (resolve (pairs (t_vals t)) ''V'')) (tallies town_votes))
           \<and> cells df ''percent'' = map (\<lambda>t. Obj (resolve (pairs (t_vals t)) ''TO'')) (tallies town_votes)
           \<and> cells df ''town_id'' = map (\<lambda>t. Obj (JStr (t_town t))) (tallies town_votes)
           \<and> cells df ''office_id'' = map (\<lambda>t. Obj (JStr (t_office t))) (tallies town_votes)
           \<and> cells df ''candidate_id'' = map (\<lambda>t. Obj (JStr (t_candidate t))) (tallies town_votes)"
    apply (rule exI [of _ df], rule exI [of _ offices])
    apply (intro conjI impI run m n cols(1-3) cols(5-9))
     apply (simp only: n length_tallies_single)
    apply (simp only: cols(4) party_name_def)
    done
next
  show "parse_results E spec_lookup spec_election =
       Inr \<lparr>nrows = 1,
            columns =
              [(''town_name'', [Obj (JStr ''Hartford'')]),
               (''office_name'', [Obj (JStr ''Mayor'')]),
               (''candidate_name'', [Obj (JStr ''Jane Doe'')]),
               (''party'', [Obj (JStr ''Democratic Party'')]),
               (''votes'', [Num 1234]),
               (''percent'', [Obj (JStr ''55%'')]),
               (''town_id'', [Obj (JStr ''5'')]),
               (''office_id'', [Obj (JStr ''10'')]),
               (''candidate_id'', [Obj (JStr ''100'')])]\<rparr>"
    by (rule parse_results_spec_example)
qed


text \<open>
  The tables that the two parsers return are tables as the Spanish views expect them.
\<close>

lemma parse_turnout_table:
  assumes "turnout_doc election turnout status"
  shows "\<exists>df. parse_turnout E election = Inr df \<and> turnout_table df"
  unfolding parse_turnout_shaped [OF assms]
  by (simp add: turnout_table_def wf_frame_def has_columns_def)

lemma parse_results_table:
  assumes "lookup_doc lookup towns parties candidates office_list"
    and "votes_doc election town_votes"
    and "parse_results E lookup election = Inr df"
    and "list_all hashable (cells df ''party'')"
  shows "results_table df"
proof -
  from office_map_exists [OF assms(1)] obtain offices
    where m: "build_office_map (JArr office_list) = Inr offices"
    by blast
  from assms(3,4) show ?thesis
    unfolding parse_results_shaped [OF assms(1,2) m]
    by (auto simp: results_table_def wf_frame_def has_columns_def split: if_splits)
qed

section \<open>The results and turnout tables of the example documents\<close>

lemma example_lookup_doc:
  "lookup_doc example_lookup
     [(''5'', JStr ''Hartford'')]
     [(''2'', JObj [(''NM'', JStr ''Republican Party'')])]
     [(''100'', JObj [(''NM'', JStr ''Jane Doe''), (''P'', JStr ''1'')])]
     []"
  by (simp add: lookup_doc_def example_lookup_def dict_get_def records_def office_entries_def)

lemma example_votes_doc:
  "votes_doc example_election
     [(''5'', JObj [(''10'', JArr
          [JObj [(''100'', JObj [(''V'', JStr ''1,234''), (''TO'', JStr ''55%'')])],
           JObj [(''999'', JObj [(''V'', JStr ''n/a'')])]])]),
      (''6'', JObj [])]"
  by (simp add: votes_doc_def example_election_def dict_get_def votes_shaped_def town_shaped_def
      office_shaped_def entry_shaped_def records_def)

lemma example_tallies:
  "tallies
     [(''5'', JObj [(''10'', JArr
          [JObj [(''100'', JObj [(''V'', JStr ''1,234''), (''TO'', JStr ''55%'')])],
           JObj [(''999'', JObj [(''V'', JStr ''n/a'')])]])]),
      (''6'', JObj [])]
   = [\<lparr>t_town = ''5'', t_office = ''10'', t_candidate = ''100'',
        t_vals = JObj [(''V'', JStr ''1,234''), (''TO'', JStr ''55%'')]\<rparr>,
      \<lparr>t_town = ''5'', t_office = ''10'', t_candidate = ''999'',
        t_vals = JObj [(''V'', JStr ''n/a'')]\<rparr>]"
  by (simp add: tallies_def town_tallies_def office_tallies_def entry_tallies_def)

lemma example_turnout_doc:
  "turnout_doc example_election
     [(''5'', JObj [(''NM'', JStr ''Hartford''), (''EV'', JStr ''70,000''),
                    (''VV'', JStr ''21,000''), (''TO'', JStr ''30%''), (''PR'', JStr ''0 of 0'')]),
      (''6'', JObj [(''NM'', JStr ''Avon''), (''EV'', JStr ''''), (''VV'', JStr ''pending'')])]
     [(''5'', JObj [(''PR'', JStr ''3 of 5'')])]"
  by (simp add: turnout_doc_def example_election_def dict_get_def records_def)






text \<open>
  C1 on the example documents: two rows for town 5 and none for town 6, which has no
  contest; the office, the party and the unknown candidate resolve to the empty string.
\<close>

theorem parse_results_rows_witness:
  "\<exists>df. parse_results example_env example_lookup example_election = Inr df
     \<and> nrows df = 2
     \<and> cells df ''town_name'' = [Obj (JStr ''Hartford''), Obj (JStr ''Hartford'')]
     \<and> cells df ''office_name'' = [Obj (JStr ''''), Obj (JStr '''')]
     \<and> cells df ''candidate_name'' = [Obj (JStr ''Jane Doe''), Obj (JStr '''')]
     \<and> cells df ''party'' = [Obj (JStr ''''), Obj (JStr '''')]
     \<and> cells df ''percent'' = [Obj (JStr ''55%''), Obj (JStr '''')]
     \<and> cells df ''candidate_id'' = [Obj (JStr ''100''), Obj (JStr ''999'')]"
proof -
  let ?tv = "[(''5'', JObj [(''10'', JArr
          [JObj [(''100'', JObj [(''V'', JStr ''1,234''), (''TO'', JStr ''55%'')])],
           JObj [(''999'', JObj [(''V'', JStr ''n/a'')])]])]),
      (''6'', JObj [])]"
  have o: "build_office_map (JArr []) = Inr []"
    by (simp add: build_office_map_def)
  from parse_results_rows [THEN conjunct1, rule_format,
      OF conjI [OF example_lookup_doc example_votes_doc], of example_env]
  obtain df offices
    where run: "parse_results example_env example_lookup example_election = Inr df"
      and m: "build_office_map (JArr []) = Inr offices"
      and n: "nrows df = length (tallies ?tv)"
      and cols:
        "cells df ''town_name'' = map (\<lambda>t. Obj (resolve [(''5'', JStr ''Hartford'')] (t_town t))) (tallies ?tv)"
        "cells df ''office_name'' = map (\<lambda>t. Obj (resolve offices (t_office t))) (tallies ?tv)"
        "cells df ''candidate_name''
            = map (\<lambda>t. Obj (resolve (record_of [(''100'', JObj [(''NM'', JStr ''Jane Doe''), (''P'', JStr ''1'')])]
                     (t_candidate t)) ''NM'')) (tallies ?tv)"
        "cells df ''party''
            = map (\<lambda>t. Obj (resolve (record_of [(''2'', JObj [(''NM'', JStr ''Republican Party'')])]
                     (py_str example_env
                        (resolve (record_of [(''100'', JObj [(''NM'', JStr ''Jane Doe''), (''P'', JStr ''1'')])]
                           (t_candidate t)) ''P''))) ''NM'')) (tallies ?tv)"
        "cells df ''percent'' = map (\<lambda>t. Obj (resolve (pairs (t_vals t)) ''TO'')) (tallies ?tv)"
        "cells df ''candidate_id'' = map (\<lambda>t. Obj (JStr (t_candidate t))) (tallies ?tv)"
    by (elim exE conjE)
  from m o have offices: "offices = []" by simp
  show ?thesis
    apply (rule exI [of _ df])
    apply (intro conjI run)
          apply (simp add: n example_tallies)
         apply (simp add: cols(1) example_tallies resolve_def)
        apply (simp add: cols(2) example_tallies resolve_def offices)
       apply (simp add: cols(3) example_tallies resolve_def record_of_def)
      apply (simp add: cols(4) example_tallies resolve_def record_of_def)
     apply (simp add: cols(5) example_tallies resolve_def)
    apply (simp add: cols(6) example_tallies)
    done
qed

text \<open>
  C2 on the example election document: town 5 has the status of \<^verbatim>\<open>townStatus\<close>, not the
  \<^verbatim>\<open>PR\<close> of its turnout record, and town 6, without status, has its row.
\<close>

theorem parse_turnout_rows_witness:
  "\<exists>df. parse_turnout example_env example_election = Inr df
     \<and> nrows df = 2
     \<and> cells df ''town_id'' = [Obj (JStr ''5''), Obj (JStr ''6'')]
     \<and> cells df ''precincts_reported'' = [Obj (JStr ''3 of 5''), Obj (JStr '''')]
     \<and> length (filter (\<lambda>c. c = Obj (JStr ''6'')) (cells df ''town_id'')) = 1"
proof -
  let ?vt = "[(''5'', JObj [(''NM'', JStr ''Hartford''), (''EV'', JStr ''70,000''),
                    (''VV'', JStr ''21,000''), (''TO'', JStr ''30%''), (''PR'', JStr ''0 of 0'')]),
      (''6'', JObj [(''NM'', JStr ''Avon''), (''EV'', JStr ''''), (''VV'', JStr ''pending'')])]"
  let ?ts = "[(''5'', JObj [(''PR'', JStr ''3 of 5'')])]"
  from parse_turnout_rows [OF example_turnout_doc, of example_env]
  obtain df
    where run: "parse_turnout example_env example_election = Inr df"
      and n: "nrows df = length ?vt"
      and ids: "cells df ''town_id'' = map (\<lambda>td. Obj (JStr (fst td))) ?vt"
      and pr: "cells df ''precincts_reported'' = map (\<lambda>td. Obj (resolve (record_of ?ts (fst td)) ''PR'')) ?vt"
      and one: "\<forall>tid. distinct (map fst ?vt) \<and> tid \<in> set (map fst ?vt)
          \<longrightarrow> length (filter (\<lambda>c. c = Obj (JStr tid)) (cells df ''town_id'')) = 1"
      and miss: "\<forall>i. i < length ?vt \<and> map_of ?ts (fst (?vt ! i)) = None
          \<longrightarrow> cells df ''precincts_reported'' ! i = Obj (JStr '''')"
    by (elim exE conjE)
  have "length (filter (\<lambda>c. c = Obj (JStr ''6'')) (cells df ''town_id'')) = 1"
    using one [rule_format, of "''6''"] by simp
  then show ?thesis
    apply (intro exI [of _ df] conjI run)
       apply (simp add: n)
      apply (simp add: ids)
     apply (simp add: pr resolve_def record_of_def)
    apply assumption
    done
qed



end
